theory Spec2Isabelle
  imports Complex_Main "HOL-Library.Sublist"
begin

section \<open>JavaScript values and the built-ins the sources call\<close>

text \<open>
  The sources are TypeScript (\<^verbatim>\<open>src/cli.ts\<close> and the service client that exports
  \<^verbatim>\<open>waitForCompletion\<close>). Their values are dynamically typed, so the model has one
  closed type of values. A JavaScript number is a \<^verbatim>\<open>NaN\<close>, an infinity or a finite
  value; finite values are kept as exact rationals (rounding to binary64 and overflow to
  an infinity are not modelled; no statement below depends on them). Strings are lists
  of 8-bit characters; the built-ins are modelled on ASCII text. An object is the list of
  its own enumerable properties in the order \<^verbatim>\<open>Object.entries\<close> yields them, and a
  \<^verbatim>\<open>Record<string, T>\<close> that is only written by key and spread is the finite map of
  its own properties.
\<close>

datatype jsnum = NaN | PosInf | NegInf | Fin rat

datatype jsval =
    JUndefined
  | JNull
  | JBool bool
  | JNum jsnum
  | JStr string
  | JArr "jsval list"
  | JObj "(string \<times> jsval) list"

type_synonym params = "string \<rightharpoonup> jsval"

text \<open>
  The assignment \<^verbatim>\<open>obj[key] = value\<close> on a plain object writes the own property
  \<open>key\<close>, except for the key \<^verbatim>\<open>__proto__\<close>: that assignment reaches the accessor of
  \<^verbatim>\<open>Object.prototype\<close> and defines no own property, so neither \<^verbatim>\<open>Object.entries\<close> nor
  an object spread ever sees it.
\<close>

definition setProp :: "params \<Rightarrow> string \<Rightarrow> jsval \<Rightarrow> params" where
  "setProp obj key v = (if key = ''__proto__'' then obj else obj(key \<mapsto> v))"

subsection \<open>String built-ins\<close>

text \<open>\<^verbatim>\<open>String.prototype.trim\<close> removes white space and line terminators at both ends
  (here: tab, line feed, vertical tab, form feed, carriage return, space).\<close>

definition isWhiteSpace :: "char \<Rightarrow> bool" where
  "isWhiteSpace c = (c \<in> set [CHR 0x09, CHR 0x0A, CHR 0x0B, CHR 0x0C, CHR 0x0D, CHR '' ''])"

definition trim :: "string \<Rightarrow> string" where
  "trim s = rev (dropWhile isWhiteSpace (rev (dropWhile isWhiteSpace s)))"

definition startsWith :: "string \<Rightarrow> string \<Rightarrow> bool" where
  "startsWith s p = prefix p s"

text \<open>\<^verbatim>\<open>s.indexOf(c)\<close> for a one-character search string; \<open>None\<close> stands for -1.\<close>

fun indexOf :: "string \<Rightarrow> char \<Rightarrow> nat option" where
  "indexOf [] c = None"
| "indexOf (x # xs) c = (if x = c then Some 0 else map_option Suc (indexOf xs c))"

text \<open>\<^verbatim>\<open>s.includes(t)\<close>: \<open>t\<close> occurs in \<open>s\<close> as a contiguous run.\<close>

fun includes_str :: "string \<Rightarrow> string \<Rightarrow> bool" where
  "includes_str [] t = (t = [])"
| "includes_str (c # cs) t = (prefix t (c # cs) \<or> includes_str cs t)"

definition lowerChar :: "char \<Rightarrow> char" where
  "lowerChar c =
     (case map_of (zip ''ABCDEFGHIJKLMNOPQRSTUVWXYZ'' ''abcdefghijklmnopqrstuvwxyz'') c of
        Some l \<Rightarrow> l
      | None \<Rightarrow> c)"

definition toLowerCase :: "string \<Rightarrow> string" where
  "toLowerCase s = map lowerChar s"

subsection \<open>\<^verbatim>\<open>Number(string)\<close>\<close>

text \<open>
  The conversion of a string to a number, after ECMAScript's \<^verbatim>\<open>StringNumericLiteral\<close>:
  white space is trimmed; the empty string is 0; a literal is \<^verbatim>\<open>0x\<close>, \<^verbatim>\<open>0o\<close> or
  \<^verbatim>\<open>0b\<close> with digits of that radix, or an optional sign followed by \<^verbatim>\<open>Infinity\<close> or
  by decimal digits with an optional fraction and an optional exponent; anything else is
  \<^verbatim>\<open>NaN\<close>.
\<close>

definition digitValue :: "char \<Rightarrow> nat option" where
  "digitValue c = map_of (zip ''0123456789abcdef'' [0, 1, 2, 3, 4, 5, 6, 7, 8, 9, 10, 11, 12, 13, 14, 15])
     (lowerChar c)"

definition isDigitOf :: "nat \<Rightarrow> char \<Rightarrow> bool" where
  "isDigitOf radix c = (case digitValue c of Some d \<Rightarrow> d < radix | None \<Rightarrow> False)"

definition digitsValue :: "nat \<Rightarrow> string \<Rightarrow> nat" where
  "digitsValue radix s =
     fold (\<lambda>c n. case digitValue c of Some d \<Rightarrow> radix * n + d | None \<Rightarrow> n) s 0"

definition isExponentMark :: "char \<Rightarrow> bool" where
  "isExponentMark c = (c = CHR ''e'' \<or> c = CHR ''E'')"

definition exponentPart :: "rat \<Rightarrow> string \<Rightarrow> rat option" where
  "exponentPart m es =
     (case es of
        [] \<Rightarrow> None
      | c # ds \<Rightarrow>
          if c = CHR ''-'' then
            (if ds \<noteq> [] \<and> list_all (isDigitOf 10) ds
             then Some (m / 10 ^ digitsValue 10 ds) else None)
          else
            (let ds' = (if c = CHR ''+'' then ds else es)
             in if ds' \<noteq> [] \<and> list_all (isDigitOf 10) ds'
                then Some (m * 10 ^ digitsValue 10 ds') else None))"

definition strUnsignedDecimal :: "string \<Rightarrow> rat option" where
  "strUnsignedDecimal s =
     (let mant = takeWhile (\<lambda>c. \<not> isExponentMark c) s;
          expo = dropWhile (\<lambda>c. \<not> isExponentMark c) s;
          ip = takeWhile (\<lambda>c. c \<noteq> CHR ''.'') mant;
          fp = drop 1 (dropWhile (\<lambda>c. c \<noteq> CHR ''.'') mant);
          m = of_nat (digitsValue 10 (ip @ fp)) / 10 ^ length fp
      in if \<not> list_all (isDigitOf 10) ip \<or> \<not> list_all (isDigitOf 10) fp
            \<or> (ip = [] \<and> fp = [])
         then None
         else (case expo of [] \<Rightarrow> Some m | _ # es \<Rightarrow> exponentPart m es))"

definition strUnsigned :: "string \<Rightarrow> jsnum" where
  "strUnsigned s =
     (if s = ''Infinity'' then PosInf
      else case strUnsignedDecimal s of None \<Rightarrow> NaN | Some q \<Rightarrow> Fin q)"

definition negate :: "jsnum \<Rightarrow> jsnum" where
  "negate n = (case n of NaN \<Rightarrow> NaN | PosInf \<Rightarrow> NegInf | NegInf \<Rightarrow> PosInf | Fin q \<Rightarrow> Fin (- q))"

definition radixOf :: "string \<Rightarrow> nat option" where
  "radixOf t =
     (case t of
        z # p # _ \<Rightarrow>
          if z \<noteq> CHR ''0'' then None
          else if lowerChar p = CHR ''x'' then Some 16
          else if lowerChar p = CHR ''o'' then Some 8
          else if lowerChar p = CHR ''b'' then Some 2
          else None
      | _ \<Rightarrow> None)"

definition Number :: "string \<Rightarrow> jsnum" where
  "Number s =
     (let t = trim s in
      if t = [] then Fin 0
      else case radixOf t of
        Some radix \<Rightarrow>
          (let ds = drop 2 t
           in if ds \<noteq> [] \<and> list_all (isDigitOf radix) ds
              then Fin (of_nat (digitsValue radix ds)) else NaN)
      | None \<Rightarrow>
          (if hd t = CHR ''+'' then strUnsigned (tl t)
           else if hd t = CHR ''-'' then negate (strUnsigned (tl t))
           else strUnsigned t))"

section \<open>Explicit \<^verbatim>\<open>--param key=value\<close> overrides (\<^verbatim>\<open>cli.ts\<close>, lines 136-158)\<close>

definition parseParamValue :: "string \<Rightarrow> jsval" where
  "parseParamValue raw =
     (let trimmed = trim raw in
      if trimmed = ''true'' then JBool True
      else if trimmed = ''false'' then JBool False
      else if Number trimmed \<noteq> NaN \<and> trimmed \<noteq> [] then JNum (Number trimmed)
      else JStr trimmed)"

text \<open>One turn of the loop of \<^verbatim>\<open>parseParams\<close>: both \<^verbatim>\<open>continue\<close> statements leave
  the accumulated object as it is.\<close>

definition parseParams_step :: "string \<Rightarrow> params \<Rightarrow> params" where
  "parseParams_step entry params =
     (case indexOf entry CHR ''='' of
        None \<Rightarrow> params
      | Some idx \<Rightarrow>
          (let key = trim (take idx entry);
               v = drop (idx + 1) entry
           in if key = [] then params else setProp params key (parseParamValue v)))"

definition parseParams :: "string list \<Rightarrow> params" where
  "parseParams paramEntries = fold parseParams_step paramEntries Map.empty"

section \<open>Ad-hoc flags (\<^verbatim>\<open>cli.ts\<close>, lines 291-326)\<close>

text \<open>\<^verbatim>\<open>/^-\d/.test(next)\<close>: a minus sign followed by a decimal digit.\<close>

definition minusDigit :: "string \<Rightarrow> bool" where
  "minusDigit s = (case s of a # b # _ \<Rightarrow> a = CHR ''-'' \<and> isDigitOf 10 b | _ \<Rightarrow> False)"

text \<open>
  The loop over \<^verbatim>\<open>args\<close> with its index \<^verbatim>\<open>i\<close> is a recursion over the arguments
  that are left: \<^verbatim>\<open>i += 1\<close> inside the body (a value was consumed) drops two arguments,
  every other path drops one. \<^verbatim>\<open>args[i + 1]\<close> past the end is \<^verbatim>\<open>undefined\<close>, which
  is falsy, as the empty string is.
\<close>

fun parseUnknownParamFlags_loop :: "string list \<Rightarrow> params \<Rightarrow> params" where
  "parseUnknownParamFlags_loop [] params = params"
| "parseUnknownParamFlags_loop (arg # rest) params =
     (if arg = [] then parseUnknownParamFlags_loop rest params
      else if arg = ''--'' then parseUnknownParamFlags_loop rest params
      else if startsWith arg ''--no-'' then
        (let key = drop 5 arg
         in parseUnknownParamFlags_loop rest
              (if key \<noteq> [] then setProp params key (JBool False) else params))
      else if startsWith arg ''--'' then
        (case indexOf arg CHR ''='' of
           Some eq \<Rightarrow>
             (let key = take (eq - 2) (drop 2 arg);
                  v = drop (eq + 1) arg
              in parseUnknownParamFlags_loop rest
                   (if key \<noteq> [] then setProp params key (parseParamValue v) else params))
         | None \<Rightarrow>
             (let key = drop 2 arg
              in if key = [] then parseUnknownParamFlags_loop rest params
                 else (case rest of
                     [] \<Rightarrow> parseUnknownParamFlags_loop rest (setProp params key (JBool True))
                   | next # rest' \<Rightarrow>
                       if next \<noteq> [] \<and> (\<not> startsWith next ''-'' \<or> minusDigit next)
                       then parseUnknownParamFlags_loop rest' (setProp params key (parseParamValue next))
                       else parseUnknownParamFlags_loop rest (setProp params key (JBool True)))))
      else parseUnknownParamFlags_loop rest params)"

definition parseUnknownParamFlags :: "string list \<Rightarrow> params" where
  "parseUnknownParamFlags args = parseUnknownParamFlags_loop args Map.empty"

section \<open>Prompts and cancellation (\<^verbatim>\<open>cli.ts\<close>, lines 98-104)\<close>

text \<open>
  A prompt of \<^verbatim>\<open>@clack/prompts\<close> resolves to the user's answer or to the cancel
  symbol. An \<^verbatim>\<open>Error\<close> that the sources throw and a \<^verbatim>\<open>process.exit(code)\<close> are
  values of one error type; \<open>ServiceError\<close> and \<open>YamlParseError\<close> stand for what the
  service client and \<^verbatim>\<open>YAML.parse\<close> throw.
\<close>

datatype 'a answer = Cancel | Answer 'a

datatype error =
    ProcessExit nat
  | UnknownPipeline string
  | NoPipelines
  | InvalidSelection
  | TimedOut
  | ServiceError string
  | YamlParseError string

text \<open>\<^verbatim>\<open>exitIfCancel\<close>: \<^verbatim>\<open>outro("Canceled")\<close>, then \<^verbatim>\<open>process.exit(1)\<close>.\<close>

definition exitIfCancel :: "'a answer \<Rightarrow> error + 'a" where
  "exitIfCancel v = (case v of Cancel \<Rightarrow> Inl (ProcessExit 1) | Answer x \<Rightarrow> Inr x)"

section \<open>Declared parameters (\<^verbatim>\<open>cli.ts\<close>, lines 328-351 and 432-473)\<close>

text \<open>An optional field that is absent holds \<^verbatim>\<open>undefined\<close>; \<^verbatim>\<open>values\<close> is an array or
  \<^verbatim>\<open>undefined\<close>.\<close>

record PipelineParamSpec =
  spec_name :: string
  spec_type :: string
  spec_default :: jsval
  spec_values :: "jsval list option"

definition defaultsFromSpecs :: "PipelineParamSpec list \<Rightarrow> params" where
  "defaultsFromSpecs specs =
     fold (\<lambda>spec params.
             if spec_default spec \<noteq> JUndefined
             then setProp params (spec_name spec) (spec_default spec) else params)
       specs Map.empty"

definition inferParamType :: "jsval \<Rightarrow> string" where
  "inferParamType v =
     (case v of
        JUndefined \<Rightarrow> ''string''
      | JNull \<Rightarrow> ''string''
      | JArr _ \<Rightarrow> ''array''
      | JBool _ \<Rightarrow> ''boolean''
      | JNum _ \<Rightarrow> ''number''
      | JStr _ \<Rightarrow> ''string''
      | JObj _ \<Rightarrow> ''object'')"

text \<open>Reading a property: \<^verbatim>\<open>undefined\<close> when the value is no object or has no such
  property (also with \<^verbatim>\<open>?.\<close> on \<^verbatim>\<open>null\<close> and \<^verbatim>\<open>undefined\<close>).\<close>

definition getProp :: "jsval \<Rightarrow> string \<Rightarrow> jsval" where
  "getProp v key =
     (case v of
        JObj kvs \<Rightarrow> (case map_of kvs key of Some x \<Rightarrow> x | None \<Rightarrow> JUndefined)
      | _ \<Rightarrow> JUndefined)"

definition truthy :: "jsval \<Rightarrow> bool" where
  "truthy v =
     (case v of
        JUndefined \<Rightarrow> False
      | JNull \<Rightarrow> False
      | JBool b \<Rightarrow> b
      | JNum n \<Rightarrow> n \<noteq> NaN \<and> n \<noteq> Fin 0
      | JStr s \<Rightarrow> s \<noteq> []
      | JArr _ \<Rightarrow> True
      | JObj _ \<Rightarrow> True)"

definition normalizeParamSpec :: "jsval \<Rightarrow> PipelineParamSpec option" where
  "normalizeParamSpec param =
     (case param of
        JStr s \<Rightarrow>
          Some \<lparr>spec_name = s, spec_type = ''string'', spec_default = JUndefined,
                spec_values = None\<rparr>
      | _ \<Rightarrow>
          (case getProp param ''name'' of
             JStr n \<Rightarrow>
               Some \<lparr>spec_name = n,
                     spec_type = (case getProp param ''type'' of
                                    JStr ty \<Rightarrow> ty
                                  | _ \<Rightarrow> inferParamType (getProp param ''default'')),
                     spec_default = getProp param ''default'',
                     spec_values = (case getProp param ''values'' of
                                      JArr vs \<Rightarrow> Some vs
                                    | _ \<Rightarrow> None)\<rparr>
           | _ \<Rightarrow> None))"

text \<open>\<^verbatim>\<open>YAML.parse\<close> is the parser of the \<^verbatim>\<open>yaml\<close> package: a parameter, which yields
  the document or throws.\<close>

definition extractParamsFromYaml ::
  "(string \<Rightarrow> error + jsval) \<Rightarrow> string \<Rightarrow> error + PipelineParamSpec list" where
  "extractParamsFromYaml yamlParse yamlText =
     (case yamlParse yamlText of
        Inl e \<Rightarrow> Inl e
      | Inr doc \<Rightarrow>
          (let params = getProp doc ''parameters''
           in if \<not> truthy params then Inr []
              else (case params of
                  JArr ps \<Rightarrow> Inr (List.map_filter normalizeParamSpec ps)
                | JObj kvs \<Rightarrow>
                    Inr (map (\<lambda>(name, v).
                               \<lparr>spec_name = name, spec_type = inferParamType v,
                                spec_default = v, spec_values = None\<rparr>) kvs)
                | _ \<Rightarrow> Inr [])))"

section \<open>Interactive parameter values (\<^verbatim>\<open>cli.ts\<close>, lines 485-560)\<close>

text \<open>
  The user is three functions, one per kind of prompt, from the position of the
  parameter in the list and the parameter asked for to the answer. The message and the
  initial value of a prompt only change what is shown. \<^verbatim>\<open>JSON.parse\<close> is a parameter;
  \<open>None\<close> is its exception.
\<close>

record prompter =
  ask_select :: "nat \<Rightarrow> PipelineParamSpec \<Rightarrow> jsval answer"
  ask_confirm :: "nat \<Rightarrow> PipelineParamSpec \<Rightarrow> bool answer"
  ask_text :: "nat \<Rightarrow> PipelineParamSpec \<Rightarrow> string answer"

definition promptForParameters_step ::
  "(string \<Rightarrow> jsval option) \<Rightarrow> prompter \<Rightarrow> nat \<Rightarrow> PipelineParamSpec \<Rightarrow> params
     \<Rightarrow> error + params" where
  "promptForParameters_step jsonParse user i param result =
     (let ty = toLowerCase (spec_type param) in
      if (case spec_values param of Some vs \<Rightarrow> vs \<noteq> [] | None \<Rightarrow> False) then
        (case exitIfCancel (ask_select user i param) of
           Inl e \<Rightarrow> Inl e
         | Inr picked \<Rightarrow> Inr (setProp result (spec_name param) picked))
      else if ty = ''boolean'' then
        (case exitIfCancel (ask_confirm user i param) of
           Inl e \<Rightarrow> Inl e
         | Inr picked \<Rightarrow> Inr (setProp result (spec_name param) (JBool picked)))
      else
        (case exitIfCancel (ask_text user i param) of
           Inl e \<Rightarrow> Inl e
         | Inr input \<Rightarrow>
             if trim input = [] then
               Inr (if spec_default param \<noteq> JUndefined
                    then setProp result (spec_name param) (spec_default param) else result)
             else if ty = ''number'' then
               Inr (setProp result (spec_name param)
                      (if Number input = NaN then JStr input else JNum (Number input)))
             else if ty = ''object'' \<or> ty = ''array'' then
               Inr (setProp result (spec_name param)
                      (case jsonParse input of Some v \<Rightarrow> v | None \<Rightarrow> JStr input))
             else Inr (setProp result (spec_name param) (JStr input))))"

fun promptForParameters_loop ::
  "(string \<Rightarrow> jsval option) \<Rightarrow> prompter \<Rightarrow> nat \<Rightarrow> PipelineParamSpec list \<Rightarrow> params
     \<Rightarrow> error + params" where
  "promptForParameters_loop jsonParse user i [] result = Inr result"
| "promptForParameters_loop jsonParse user i (param # rest) result =
     (case promptForParameters_step jsonParse user i param result of
        Inl e \<Rightarrow> Inl e
      | Inr result' \<Rightarrow> promptForParameters_loop jsonParse user (Suc i) rest result')"

definition promptForParameters ::
  "(string \<Rightarrow> jsval option) \<Rightarrow> prompter \<Rightarrow> PipelineParamSpec list \<Rightarrow> error + params" where
  "promptForParameters jsonParse user specs =
     promptForParameters_loop jsonParse user 0 specs Map.empty"

section \<open>Pipeline selection (\<^verbatim>\<open>config-file.ts\<close>; \<^verbatim>\<open>cli.ts\<close>, lines 338-430)\<close>

record PipelineEntry =
  entry_id :: jsnum
  entry_name :: "string option"
  entry_branch :: "string option"
  entry_path :: "string option"

record PipelineSelection =
  sel_key :: "string option"
  sel_id :: jsnum
  sel_name :: "string option"
  sel_branch :: "string option"
  sel_path :: "string option"

text \<open>The fields of \<^verbatim>\<open>AzdoConfig\<close> (\<^verbatim>\<open>config-file.ts\<close>) that the selection reads. The
  catalog is the list \<^verbatim>\<open>Object.entries(config.pipelines)\<close>; an entry that is
  \<^verbatim>\<open>undefined\<close> is \<open>None\<close>.\<close>

record AzdoFileConfig =
  cfg_orgUrl :: string
  cfg_project :: string
  cfg_pipelines :: "(string \<times> PipelineEntry option) list option"

text \<open>\<^verbatim>\<open>Number(entry.id)\<close> of a number is that number.\<close>

definition normalizePipelineEntry :: "PipelineEntry option \<Rightarrow> PipelineEntry option" where
  "normalizePipelineEntry entry =
     (case entry of
        None \<Rightarrow> None
      | Some e \<Rightarrow>
          (let n = entry_id e
           in if n = NaN then None
              else Some \<lparr>entry_id = n, entry_name = entry_name e,
                         entry_branch = entry_branch e, entry_path = entry_path e\<rparr>))"

definition listConfigPipelines ::
  "(string \<times> PipelineEntry option) list option \<Rightarrow> (string \<times> PipelineEntry) list" where
  "listConfigPipelines pipelines =
     (case pipelines of
        None \<Rightarrow> []
      | Some kvs \<Rightarrow>
          List.map_filter
            (\<lambda>(key, entry). map_option (Pair key) (normalizePipelineEntry entry)) kvs)"

text \<open>The object literal built from a catalog entry (the three \<^verbatim>\<open>return\<close> statements
  that use one).\<close>

definition selectionOf :: "jsnum \<Rightarrow> (string \<times> PipelineEntry) option \<Rightarrow> PipelineSelection" where
  "selectionOf n match =
     \<lparr>sel_key = map_option fst match,
      sel_id = n,
      sel_name = (case match of
                    None \<Rightarrow> None
                  | Some (key, e) \<Rightarrow> (case entry_name e of Some nm \<Rightarrow> Some nm | None \<Rightarrow> Some key)),
      sel_branch = (case match of None \<Rightarrow> None | Some (key, e) \<Rightarrow> entry_branch e),
      sel_path = (case match of None \<Rightarrow> None | Some (key, e) \<Rightarrow> entry_path e)\<rparr>"

text \<open>\<open>pick\<close> is the \<^verbatim>\<open>select\<close> prompt: from the values of the options to the answer.
  \<^verbatim>\<open>if (pipelineArg)\<close> is false for \<^verbatim>\<open>undefined\<close> and for the empty string.\<close>

definition resolvePipelineSelection ::
  "(string list \<Rightarrow> string answer) \<Rightarrow> AzdoFileConfig \<Rightarrow> string option
     \<Rightarrow> error + PipelineSelection" where
  "resolvePipelineSelection pick config pipelineArg =
     (let entries = listConfigPipelines (cfg_pipelines config) in
      if pipelineArg \<noteq> None \<and> pipelineArg \<noteq> Some [] then
        (let arg = (case pipelineArg of Some a \<Rightarrow> a | None \<Rightarrow> []);
             asNumber = Number arg
         in if asNumber \<noteq> NaN then
              Inr (selectionOf asNumber (find (\<lambda>(key, e). entry_id e = asNumber) entries))
            else (case find (\<lambda>(key, e). key = arg) entries of
                Some (key, e) \<Rightarrow> Inr (selectionOf (entry_id e) (Some (key, e)))
              | None \<Rightarrow> Inl (UnknownPipeline arg)))
      else if entries = [] then Inl NoPipelines
      else (case exitIfCancel (pick (map fst entries)) of
          Inl e \<Rightarrow> Inl e
        | Inr selection \<Rightarrow>
            (case find (\<lambda>(key, e). key = selection) entries of
               None \<Rightarrow> Inl InvalidSelection
             | Some (key, e) \<Rightarrow> Inr (selectionOf (entry_id e) (Some (key, e))))))"

text \<open>The claim's notion of a valid integer (\<^verbatim>\<open>Number.isInteger\<close>); the sources have no
  such test.\<close>

definition validInteger :: "jsnum \<Rightarrow> bool" where
  "validInteger n = (case n of Fin q \<Rightarrow> of_int \<lfloor>q\<rfloor> = q | _ \<Rightarrow> False)"

section \<open>The local definition locator (\<^verbatim>\<open>cli.ts\<close>, lines 213-279)\<close>

text \<open>
  \<^verbatim>\<open>basename\<close> and \<^verbatim>\<open>extname\<close> of \<^verbatim>\<open>node:path\<close>, on POSIX paths. The last segment
  of a path is what follows its last slash, trailing slashes left aside. The extension
  starts at the last dot of the last segment; there is none when the segment has no dot,
  when its only dot is its first character, and for \<^verbatim>\<open>..\<close>. \<^verbatim>\<open>basename\<close> removes a
  suffix that ends the last segment without being all of it.
\<close>

definition lastSegment :: "string \<Rightarrow> string" where
  "lastSegment p =
     rev (takeWhile (\<lambda>c. c \<noteq> CHR ''/'') (dropWhile (\<lambda>c. c = CHR ''/'') (rev p)))"

definition extname :: "string \<Rightarrow> string" where
  "extname p =
     (let seg = lastSegment p;
          afterDot = takeWhile (\<lambda>c. c \<noteq> CHR ''.'') (rev seg);
          startDot = length seg - length afterDot - 1
      in if CHR ''.'' \<notin> set seg \<or> startDot = 0 \<or> seg = ''..'' then []
         else drop startDot seg)"

definition basename :: "string \<Rightarrow> string \<Rightarrow> string" where
  "basename p ext =
     (if ext \<noteq> [] \<and> length ext \<le> length p then
        (if ext = p then []
         else (let seg = lastSegment p
               in if prefix (rev ext) (rev seg) \<and> seg \<noteq> ext
                  then take (length seg - length ext) seg else seg))
      else lastSegment p)"

text \<open>\<^verbatim>\<open>value.toLowerCase().replace(/[^a-z0-9]+/g, "")\<close> keeps the lower-case letters
  and the digits; \<^verbatim>\<open>!value\<close> holds for \<^verbatim>\<open>undefined\<close> and for the empty string.\<close>

definition isLowerAlnum :: "char \<Rightarrow> bool" where
  "isLowerAlnum c = (c \<in> set ''abcdefghijklmnopqrstuvwxyz0123456789'')"

definition normalizeForMatch :: "string option \<Rightarrow> string" where
  "normalizeForMatch v =
     (case v of None \<Rightarrow> [] | Some s \<Rightarrow> filter isLowerAlnum (toLowerCase s))"

definition scoreYamlCandidate :: "string \<Rightarrow> string option \<Rightarrow> string option \<Rightarrow> nat" where
  "scoreYamlCandidate filePath pipelineKey pipelineName =
     (let base = toLowerCase (basename filePath (extname filePath));
          baseNorm = normalizeForMatch (Some base);
          pathNorm = normalizeForMatch (Some filePath);
          keyNorm = normalizeForMatch pipelineKey;
          nameNorm = normalizeForMatch pipelineName
      in (if keyNorm \<noteq> [] \<and> includes_str baseNorm keyNorm then 8 else 0)
       + (if nameNorm \<noteq> [] \<and> includes_str baseNorm nameNorm then 6 else 0)
       + (if keyNorm \<noteq> [] \<and> includes_str pathNorm keyNorm then 4 else 0)
       + (if nameNorm \<noteq> [] \<and> includes_str pathNorm nameNorm then 3 else 0)
       + (if includes_str base ''azure-pipelines'' then 2 else 0)
       + (if includes_str pathNorm ''pipeline'' then 1 else 0))"

text \<open>
  \<open>files\<close> is what \<^verbatim>\<open>findYamlFiles\<close> found, in its order. \<^verbatim>\<open>Array.prototype.sort\<close>
  is stable, and so is \<open>sort_key\<close>; the comparator \<^verbatim>\<open>b.score - a.score\<close> sorts by
  falling score. The list \<^verbatim>\<open>top\<close> holds at least the first candidate, so its empty
  case below is never reached (the source would read \<^verbatim>\<open>top[0]\<close> there).
\<close>

definition scoredCandidates ::
  "string list \<Rightarrow> string option \<Rightarrow> string option \<Rightarrow> (string \<times> nat) list" where
  "scoredCandidates files pipelineKey pipelineName =
     sort_key (\<lambda>item. - int (snd item))
       (filter (\<lambda>item. snd item > 0)
          (map (\<lambda>file. (file, scoreYamlCandidate file pipelineKey pipelineName)) files))"

definition selectLocalYamlFile ::
  "(string list \<Rightarrow> string answer) \<Rightarrow> string list \<Rightarrow> string option \<Rightarrow> string option \<Rightarrow> bool
     \<Rightarrow> error + string option" where
  "selectLocalYamlFile pick files pipelineKey pipelineName interactive =
     (if files = [] then Inr None
      else (case scoredCandidates files pipelineKey pipelineName of
          [] \<Rightarrow> Inr None
        | [only] \<Rightarrow> Inr (Some (fst only))
        | first # _ # _ \<Rightarrow>
            (let topScore = snd first;
                 top = filter (\<lambda>item. snd item = topScore)
                         (scoredCandidates files pipelineKey pipelineName)
             in (case top of
                   [] \<Rightarrow> Inr None
                 | [one] \<Rightarrow> Inr (Some (fst one))
                 | t0 # _ # _ \<Rightarrow>
                     if \<not> interactive then Inr (Some (fst t0))
                     else (case exitIfCancel (pick (map fst top)) of
                         Inl e \<Rightarrow> Inl e
                       | Inr selection \<Rightarrow> Inr (Some selection))))))"

section \<open>The run completion monitor (\<^verbatim>\<open>waitForCompletion\<close> of the service client)\<close>

record RunInfo =
  run_id :: jsnum
  run_state :: "string option"
  run_result :: "string option"
  run_url :: "string option"

text \<open>The observer \<^verbatim>\<open>onUpdate\<close> acts on a state of its own (the callers' one keeps the
  last state it printed). Times are in milliseconds.\<close>

record 's WaitOptions =
  pollMs :: int
  timeoutMs :: int
  onUpdate :: "(RunInfo \<Rightarrow> 's \<Rightarrow> 's) option"

text \<open>What the monitor has done so far: the calls of \<^verbatim>\<open>getRun\<close>, the readings of
  \<^verbatim>\<open>Date.now()\<close>, the argument of every \<^verbatim>\<open>sleep\<close>, and the observer's state.\<close>

record 's monitor =
  queries :: nat
  clockReads :: nat
  suspensions :: "int list"
  observer :: 's

text \<open>
  The service and the clock are the environment: \<open>getRun k\<close> is the outcome of the
  call number \<open>k\<close> of \<^verbatim>\<open>getRun\<close> (an exception or the run), \<open>now k\<close> what the reading
  number \<open>k\<close> of \<^verbatim>\<open>Date.now()\<close> returns, both counted from 0. The loop
  \<^verbatim>\<open>while (true)\<close> may run forever, so it is a partial function: \<open>None\<close> is
  a monitor that never returns.
\<close>

text \<open>\<^verbatim>\<open>options.onUpdate?.(run)\<close>\<close>

definition notify :: "'s WaitOptions \<Rightarrow> RunInfo \<Rightarrow> 's \<Rightarrow> 's" where
  "notify options run s = (case onUpdate options of None \<Rightarrow> s | Some f \<Rightarrow> f run s)"

partial_function (option) waitForCompletion_loop ::
  "(nat \<Rightarrow> error + RunInfo) \<Rightarrow> (nat \<Rightarrow> int) \<Rightarrow> 's WaitOptions \<Rightarrow> int \<Rightarrow> 's monitor
     \<Rightarrow> ((error + RunInfo) \<times> 's monitor) option" where
  "waitForCompletion_loop getRun now options started m =
     (case getRun (queries m) of
        Inl e \<Rightarrow> Some (Inl e, m\<lparr>queries := Suc (queries m)\<rparr>)
      | Inr run \<Rightarrow>
          (let m1 = m\<lparr>queries := Suc (queries m),
                      observer := notify options run (observer m)\<rparr>
           in if run_state run = Some ''completed'' then Some (Inr run, m1)
              else if now (clockReads m1) - started > timeoutMs options
              then Some (Inl TimedOut, m1\<lparr>clockReads := Suc (clockReads m1)\<rparr>)
              else waitForCompletion_loop getRun now options started
                     (m1\<lparr>clockReads := Suc (clockReads m1),
                         suspensions := suspensions m1 @ [pollMs options]\<rparr>)))"

declare waitForCompletion_loop.simps [code]

definition waitForCompletion ::
  "(nat \<Rightarrow> error + RunInfo) \<Rightarrow> (nat \<Rightarrow> int) \<Rightarrow> 's WaitOptions \<Rightarrow> 's
     \<Rightarrow> ((error + RunInfo) \<times> 's monitor) option" where
  "waitForCompletion getRun now options s0 =
     waitForCompletion_loop getRun now options (now 0)
       \<lparr>queries = 0, clockReads = 1, suspensions = [], observer = s0\<rparr>"

section \<open>The parameters of the \<^verbatim>\<open>build\<close> command (\<^verbatim>\<open>cli.ts\<close>, lines 781-848)\<close>

record YamlInfo =
  yaml_content :: "string option"
  yaml_path :: "string option"
  yaml_repositoryType :: "string option"

text \<open>
  What this part of the action reads from outside: the file system (\<open>readFile p\<close> is
  the text of the file at \<^verbatim>\<open>resolve(cwd, p)\<close>, \<open>None\<close> when reading throws), the
  outcome of \<^verbatim>\<open>getPipelineYaml\<close> for the selection, the files \<^verbatim>\<open>findYamlFiles\<close> lists,
  the prompts and the two parsers.
\<close>

record buildEnv =
  env_readFile :: "string \<Rightarrow> string option"
  env_getPipelineYaml :: "error + YamlInfo"
  env_findYamlFiles :: "string list"
  env_pick :: "string list \<Rightarrow> string answer"
  env_yamlParse :: "string \<Rightarrow> error + jsval"
  env_jsonParse :: "string \<Rightarrow> jsval option"
  env_user :: prompter

text \<open>The notices of this part: \<^verbatim>\<open>ui.info\<close> three times, \<^verbatim>\<open>ui.warn\<close> once.\<close>

datatype notice =
    FoundParameters nat string
  | SkippingPrompts string
  | CouldNotReadYaml error
  | NoYamlFound

text \<open>\<^verbatim>\<open>readLocalYaml\<close> catches what \<^verbatim>\<open>readFile\<close> throws and returns \<^verbatim>\<open>null\<close>. The
  callers test \<^verbatim>\<open>if (local)\<close>, false for \<^verbatim>\<open>null\<close> and for an empty file.\<close>

definition readLocalYaml :: "buildEnv \<Rightarrow> string \<Rightarrow> string option" where
  "readLocalYaml env filePath = env_readFile env filePath"

definition usableYaml :: "buildEnv \<Rightarrow> string \<Rightarrow> (string \<times> string) option" where
  "usableYaml env filePath =
     (case readLocalYaml env filePath of
        Some content \<Rightarrow> if content \<noteq> [] then Some (content, filePath) else None
      | None \<Rightarrow> None)"

text \<open>Lines 787-806: the file of the selection, then the remote definition. The result
  is the text with its label, \<^verbatim>\<open>repoType\<close> and \<^verbatim>\<open>yamlError\<close>.\<close>

definition lookupYaml ::
  "buildEnv \<Rightarrow> PipelineSelection \<Rightarrow> (string \<times> string) option \<times> string option \<times> error option" where
  "lookupYaml env selection =
     (let local = (case sel_path selection of
                     Some p \<Rightarrow> if p \<noteq> [] then usableYaml env p else None
                   | None \<Rightarrow> None)
      in if local \<noteq> None then (local, None, None)
         else (case env_getPipelineYaml env of
             Inl err \<Rightarrow> (None, None, Some err)
           | Inr yamlInfo \<Rightarrow>
               (case yaml_content yamlInfo of
                  Some content \<Rightarrow>
                    if content \<noteq> [] then
                      (Some (content,
                             (case yaml_path yamlInfo of Some p \<Rightarrow> p | None \<Rightarrow> ''pipeline YAML'')),
                       yaml_repositoryType yamlInfo, None)
                    else (None, yaml_repositoryType yamlInfo, None)
                | None \<Rightarrow> (None, yaml_repositoryType yamlInfo, None))))"

text \<open>Lines 808-822: the locator, when there is no text yet.\<close>

definition locateYaml ::
  "buildEnv \<Rightarrow> PipelineSelection \<Rightarrow> bool \<Rightarrow> (string \<times> string) option
     \<Rightarrow> error + (string \<times> string) option" where
  "locateYaml env selection prompt yaml =
     (if yaml \<noteq> None then Inr yaml
      else (case selectLocalYamlFile (env_pick env) (env_findYamlFiles env)
                   (sel_key selection) (sel_name selection) prompt of
          Inl e \<Rightarrow> Inl e
        | Inr None \<Rightarrow> Inr None
        | Inr (Some localPick) \<Rightarrow>
            if localPick \<noteq> [] then Inr (usableYaml env localPick) else Inr None))"

text \<open>Lines 826-833: the values the declared parameters give.\<close>

definition specParameters ::
  "(string \<Rightarrow> jsval option) \<Rightarrow> prompter \<Rightarrow> bool \<Rightarrow> PipelineParamSpec list \<Rightarrow> error + params" where
  "specParameters jsonParse user prompt specs =
     (if specs \<noteq> [] then
        (if prompt then promptForParameters jsonParse user specs
         else Inr (defaultsFromSpecs specs))
      else Inr Map.empty)"

text \<open>Lines 824-840.\<close>

definition yamlParameters ::
  "buildEnv \<Rightarrow> bool \<Rightarrow> (string \<times> string) option \<Rightarrow> string option \<Rightarrow> error option
     \<Rightarrow> error + params \<times> notice list" where
  "yamlParameters env prompt yaml repoType yamlError =
     (case yaml of
        Some (yamlContent, yamlLabel) \<Rightarrow>
          (case extractParamsFromYaml (env_yamlParse env) yamlContent of
             Inl e \<Rightarrow> Inl e
           | Inr specs \<Rightarrow>
               (case specParameters (env_jsonParse env) (env_user env) prompt specs of
                  Inl e \<Rightarrow> Inl e
                | Inr parameters \<Rightarrow>
                    Inr (parameters,
                         if specs \<noteq> [] then [FoundParameters (length specs) yamlLabel] else [])))
      | None \<Rightarrow>
          (case repoType of
             Some rt \<Rightarrow>
               if rt \<noteq> [] \<and> rt \<noteq> ''azureReposGit'' then Inr (Map.empty, [SkippingPrompts rt])
               else (case yamlError of
                       Some err \<Rightarrow> Inr (Map.empty, [CouldNotReadYaml err])
                     | None \<Rightarrow> Inr (Map.empty, [NoYamlFound]))
           | None \<Rightarrow>
               (case yamlError of
                  Some err \<Rightarrow> Inr (Map.empty, [CouldNotReadYaml err])
                | None \<Rightarrow> Inr (Map.empty, [NoYamlFound]))))"

text \<open>Lines 842-848: the object spread, later sources over earlier ones.\<close>

definition mergedParams :: "params \<Rightarrow> params \<Rightarrow> params \<Rightarrow> params" where
  "mergedParams parameters overrideParams flagParams =
     parameters ++ overrideParams ++ flagParams"

definition buildParameters ::
  "buildEnv \<Rightarrow> PipelineSelection \<Rightarrow> bool \<Rightarrow> string list \<Rightarrow> string list
     \<Rightarrow> error + params \<times> notice list" where
  "buildParameters env selection prompt paramEntries args =
     (case lookupYaml env selection of
        (yaml, repoType, yamlError) \<Rightarrow>
          (case locateYaml env selection prompt yaml of
             Inl e \<Rightarrow> Inl e
           | Inr yaml' \<Rightarrow>
               (case yamlParameters env prompt yaml' repoType yamlError of
                  Inl e \<Rightarrow> Inl e
                | Inr (parameters, notices) \<Rightarrow>
                    Inr (mergedParams parameters (parseParams paramEntries)
                           (parseUnknownParamFlags args),
                         notices))))"


text \<open>The exit code an error of the action ends the process with: \<^verbatim>\<open>process.exit\<close>
  gives its own, and the \<^verbatim>\<open>catch\<close> of the action sets \<^verbatim>\<open>process.exitCode = 1\<close>.\<close>

definition exitCode :: "error \<Rightarrow> nat" where
  "exitCode e = (case e of ProcessExit code \<Rightarrow> code | _ \<Rightarrow> 1)"

section \<open>Concrete inputs\<close>

text \<open>The inputs at which the statements below are evaluated.\<close>

definition noJson :: "string \<Rightarrow> jsval option" where
  "noJson input = None"

definition noPick :: "string list \<Rightarrow> string answer" where
  "noPick options = Cancel"

definition sampleSpecs :: "PipelineParamSpec list" where
  "sampleSpecs =
     [\<lparr>spec_name = ''x'', spec_type = ''string'', spec_default = JStr ''d'', spec_values = None\<rparr>,
      \<lparr>spec_name = ''only'', spec_type = ''string'', spec_default = JStr ''kept'',
        spec_values = None\<rparr>]"


definition cancellingUser :: prompter where
  "cancellingUser =
     \<lparr>ask_select = (\<lambda>i param. Cancel),
      ask_confirm = (\<lambda>i param. Cancel),
      ask_text = (\<lambda>i param. Cancel)\<rparr>"

definition sampleConfig :: AzdoFileConfig where
  "sampleConfig =
     \<lparr>cfg_orgUrl = ''https://dev.azure.com/org'', cfg_project = ''app'',
      cfg_pipelines =
        Some [(''android_staging'',
               Some \<lparr>entry_id = Fin 7, entry_name = None, entry_branch = Some ''develop'',
                     entry_path = Some ''ci/android-staging.yml''\<rparr>)]\<rparr>"

definition parsesTo :: "jsval \<Rightarrow> string \<Rightarrow> error + jsval" where
  "parsesTo doc yamlText = Inr doc"

definition runInState :: "string \<Rightarrow> RunInfo" where
  "runInState st = \<lparr>run_id = Fin 42, run_state = Some st, run_result = None, run_url = None\<rparr>"

definition threeResponses :: "nat \<Rightarrow> error + RunInfo" where
  "threeResponses k =
     (if k = 0 then Inr (runInState ''queued'')
      else if k = 1 then Inr (runInState ''inProgress'')
      else Inr (runInState ''completed''))"

definition twoResponses :: "nat \<Rightarrow> error + RunInfo" where
  "twoResponses k =
     (if k = 0 then Inr (runInState ''queued'') else Inr (runInState ''completed''))"

text \<open>A clock that has advanced by \<open>step\<close> milliseconds at every reading.\<close>

definition tickingClock :: "int \<Rightarrow> nat \<Rightarrow> int" where
  "tickingClock step k = step * int k"

text \<open>The clock when every query returns at once and every suspension lasts exactly
  \<open>poll\<close> milliseconds: the readings are 0, 0, \<open>poll\<close>, twice \<open>poll\<close> and so on.\<close>

definition sleepingClock :: "int \<Rightarrow> nat \<Rightarrow> int" where
  "sleepingClock poll k = poll * int (k - 1)"

definition loggingOptions :: "int \<Rightarrow> int \<Rightarrow> RunInfo list WaitOptions" where
  "loggingOptions poll timeout =
     \<lparr>pollMs = poll, timeoutMs = timeout, onUpdate = Some (\<lambda>run log. log @ [run])\<rparr>"

text \<open>A project whose definition file is readable and is not YAML, while the service
  has a definition that parses.\<close>

definition brokenYamlEnv :: buildEnv where
  "brokenYamlEnv =
     \<lparr>env_readFile = (\<lambda>p. if p = ''ci/build.yml'' then Some ''parameters: ['' else None),
      env_getPipelineYaml =
        Inr \<lparr>yaml_content = Some ''parameters: []'', yaml_path = Some ''/ci/build.yml'',
             yaml_repositoryType = Some ''azureReposGit''\<rparr>,
      env_findYamlFiles = [''ci/build.yml''],
      env_pick = noPick,
      env_yamlParse = (\<lambda>yamlText. if yamlText = ''parameters: [''
                                      then Inl (YamlParseError ''Flow sequence must end with a ]'')
                                      else Inr (JObj [(''parameters'', JArr [])])),
      env_jsonParse = noJson,
      env_user = cancellingUser\<rparr>"


definition buildSelection :: PipelineSelection where
  "buildSelection =
     \<lparr>sel_key = Some ''build'', sel_id = Fin 7, sel_name = Some ''build'', sel_branch = None,
      sel_path = Some ''ci/build.yml''\<rparr>"

section \<open>Properties\<close>

text \<open>The equations that evaluate the built-ins on a literal.\<close>

lemmas js_eval = trim_def isWhiteSpace_def toLowerCase_def lowerChar_def Number_def radixOf_def
  strUnsigned_def strUnsignedDecimal_def exponentPart_def isExponentMark_def isDigitOf_def
  digitValue_def digitsValue_def negate_def parseParamValue_def startsWith_def minusDigit_def

subsection \<open>Writing a property\<close>


lemma setProp_add: "setProp m k v = m ++ setProp Map.empty k v"
  by (simp add: setProp_def)

subsection \<open>Explicit overrides\<close>

lemma indexOf_None_iff: "indexOf s c = None \<longleftrightarrow> c \<notin> set s"
  by (induction s) auto

lemma parseParams_step_no_eq: "CHR ''='' \<notin> set entry \<Longrightarrow> parseParams_step entry params = params"
  by (simp add: parseParams_step_def indexOf_None_iff [THEN iffD2])

text \<open>
  Claim C10. An entry of the \<^verbatim>\<open>--param\<close> list that contains no \<^verbatim>\<open>=\<close> is left out of
  the override map: the result is the one the list without that entry gives, so every
  other entry is processed as before. \<^verbatim>\<open>parseParams\<close> has no \<^verbatim>\<open>throw\<close>; the model is
  a total function into maps, with no error value.
\<close>

theorem parseParams_skips_entry_without_eq:
  assumes "CHR ''='' \<notin> set entry"
  shows "parseParams (before @ entry # after) = parseParams (before @ after)"
  using assms by (simp add: parseParams_def parseParams_step_no_eq)

theorem parseParams_skips_entry_without_eq_witness:
  "CHR ''='' \<notin> set ''verbose''
   \<and> parseParams ([''a=1''] @ ''verbose'' # [''b=x'']) = parseParams ([''a=1''] @ [''b=x''])
   \<and> parseParams [''a=1'', ''verbose'', ''b=x''] ''a'' = Some (JNum (Fin 1))
   \<and> parseParams [''a=1'', ''verbose'', ''b=x''] ''b'' = Some (JStr ''x'')
   \<and> parseParams [''a=1'', ''verbose'', ''b=x''] ''verbose'' = None"
proof -
  have h: "CHR ''='' \<notin> set ''verbose''" by simp
  have vals: "parseParams [''a=1'', ''verbose'', ''b=x''] ''a'' = Some (JNum (Fin 1))
    \<and> parseParams [''a=1'', ''verbose'', ''b=x''] ''b'' = Some (JStr ''x'')
    \<and> parseParams [''a=1'', ''verbose'', ''b=x''] ''verbose'' = None"
    by code_simp
  show ?thesis
    using h vals parseParams_skips_entry_without_eq [OF h, of "[''a=1'']" "[''b=x'']"]
    by simp
qed

subsection \<open>The merge\<close>






















subsection \<open>Ad-hoc flags\<close>

lemma startsWith_no_dashes: "startsWith arg ''--no-'' \<Longrightarrow> startsWith arg ''--''"
  by (auto simp: startsWith_def prefix_def)

text \<open>One turn of the loop: it writes at most one entry and goes on with a list that is
  not longer than the rest.\<close>

lemma flags_turn:
  "\<exists>e rest'. length rest' \<le> length rest \<and>
     (\<forall>acc. parseUnknownParamFlags_loop (arg # rest) acc =
        parseUnknownParamFlags_loop rest' (case e of None \<Rightarrow> acc | Some (k, v) \<Rightarrow> setProp acc k v))"
proof -
  let ?goal = "\<lambda>e rest'. length rest' \<le> length rest \<and>
     (\<forall>acc. parseUnknownParamFlags_loop (arg # rest) acc =
        parseUnknownParamFlags_loop rest' (case e of None \<Rightarrow> acc | Some (k, v) \<Rightarrow> setProp acc k v))"
  consider (skip) "arg = [] \<or> arg = ''--'' \<or> \<not> startsWith arg ''--''"
    | (no) "arg \<noteq> []" "arg \<noteq> ''--''" "startsWith arg ''--no-''"
    | (eq) eq where "arg \<noteq> []" "arg \<noteq> ''--''" "\<not> startsWith arg ''--no-''"
        "startsWith arg ''--''" "indexOf arg CHR ''='' = Some eq"
    | (bare) "arg \<noteq> []" "arg \<noteq> ''--''" "\<not> startsWith arg ''--no-''"
        "startsWith arg ''--''" "indexOf arg CHR ''='' = None"
    by (cases "indexOf arg CHR ''=''") auto
  then show ?thesis
  proof cases
    case skip
    then have "?goal None rest"
      using startsWith_no_dashes [of arg]
      by (subst parseUnknownParamFlags_loop.simps(2)) (auto simp del: parseUnknownParamFlags_loop.simps)
    then show ?thesis by blast
  next
    case no
    then have "?goal (if drop 5 arg \<noteq> [] then Some (drop 5 arg, JBool False) else None) rest"
      by (subst parseUnknownParamFlags_loop.simps(2)) (simp add: Let_def del: parseUnknownParamFlags_loop.simps)
    then show ?thesis by blast
  next
    case eq
    then have "?goal (if take (eq - 2) (drop 2 arg) \<noteq> []
                      then Some (take (eq - 2) (drop 2 arg), parseParamValue (drop (eq + 1) arg))
                      else None) rest"
      by (subst parseUnknownParamFlags_loop.simps(2)) (simp add: Let_def del: parseUnknownParamFlags_loop.simps)
    then show ?thesis by blast
  next
    case bare
    show ?thesis
    proof (cases "drop 2 arg = []")
      case True
      with bare have "?goal None rest" by (subst parseUnknownParamFlags_loop.simps(2)) (simp add: Let_def del: parseUnknownParamFlags_loop.simps)
      then show ?thesis by blast
    next
      case False
      show ?thesis
      proof (cases rest)
        case Nil
        with bare False have "?goal (Some (drop 2 arg, JBool True)) rest"
          by (subst parseUnknownParamFlags_loop.simps(2)) (simp add: Let_def del: parseUnknownParamFlags_loop.simps)
        then show ?thesis by blast
      next
        case (Cons nxt rest')
        show ?thesis
        proof (cases "nxt \<noteq> [] \<and> (\<not> startsWith nxt ''-'' \<or> minusDigit nxt)")
          case True
          with bare False Cons have "?goal (Some (drop 2 arg, parseParamValue nxt)) rest'"
            by (subst parseUnknownParamFlags_loop.simps(2)) (simp add: Let_def del: parseUnknownParamFlags_loop.simps)
          then show ?thesis by blast
        next
          case False
          with bare \<open>drop 2 arg \<noteq> []\<close> Cons have "?goal (Some (drop 2 arg, JBool True)) rest"
            by (subst parseUnknownParamFlags_loop.simps(2)) (auto simp add: Let_def simp del: parseUnknownParamFlags_loop.simps)
          then show ?thesis by blast
        qed
      qed
    qed
  qed
qed

lemma flags_loop_acc:
  "parseUnknownParamFlags_loop args acc = acc ++ parseUnknownParamFlags_loop args Map.empty"
proof (induction args arbitrary: acc rule: length_induct)
  case (1 args)
  show ?case
  proof (cases args)
    case Nil
    then show ?thesis by simp
  next
    case (Cons arg rest)
    obtain e rest' where len: "length rest' \<le> length rest"
      and turn: "\<And>a. parseUnknownParamFlags_loop (arg # rest) a =
        parseUnknownParamFlags_loop rest' (case e of None \<Rightarrow> a | Some (k, v) \<Rightarrow> setProp a k v)"
      using flags_turn [of rest arg] by blast
    define F where "F = parseUnknownParamFlags_loop rest' Map.empty"
    have shorter: "length rest' < length args"
      using len Cons by simp
    have IH: "parseUnknownParamFlags_loop rest' a = a ++ F" for a
      unfolding F_def using 1 shorter by blast
    show ?thesis
    proof (cases e)
      case None
      then show ?thesis
        unfolding Cons by (simp only: turn IH) simp
    next
      case (Some kv)
      obtain k v where "kv = (k, v)" by (cases kv)
      with Some show ?thesis
        unfolding Cons by (simp only: turn IH) (simp add: setProp_add [of acc])
    qed
  qed
qed


lemma indexOf_append_first:
  "c \<notin> set xs \<Longrightarrow> indexOf (xs @ c # ys) c = Some (length xs)"
  by (induction xs) auto

lemma prefix_before_char:
  "prefix p (xs @ c # ys) \<Longrightarrow> c \<notin> set p \<Longrightarrow> prefix p xs"
proof (induction p arbitrary: xs)
  case Nil
  then show ?case by simp
next
  case (Cons a p)
  show ?case
  proof (cases xs)
    case Nil
    with Cons.prems show ?thesis by simp
  next
    case (Cons x xs')
    with Cons.prems have "a = x" "prefix p (xs' @ c # ys)" "c \<notin> set p"
      by simp_all
    with Cons.IH [of xs'] Cons show ?thesis by simp
  qed
qed

lemma flags_head:
  "parseUnknownParamFlags_loop (arg # rest) Map.empty = parseUnknownParamFlags_loop rest' (setProp Map.empty k v)
   \<Longrightarrow> parseUnknownParamFlags (arg # rest) = setProp Map.empty k v ++ parseUnknownParamFlags rest'"
  unfolding parseUnknownParamFlags_def using flags_loop_acc [of rest' "setProp Map.empty k v"] by simp

lemma flags_eq_form:
  assumes "name \<noteq> []" "\<not> prefix ''no-'' name" "CHR ''='' \<notin> set name"
  shows "parseUnknownParamFlags ((''--'' @ name @ ''='' @ v) # rest)
         = setProp Map.empty name (parseParamValue v) ++ parseUnknownParamFlags rest"
proof (rule flags_head)
  have idx: "indexOf (''--'' @ name @ ''='' @ v) CHR ''='' = Some (2 + length name)"
    using indexOf_append_first [of "CHR ''=''" "''--'' @ name" v] assms(3) by simp
  have nn: "\<not> prefix ''no-'' (name @ ''='' @ v)"
    using assms(2) prefix_before_char [of "''no-''" name "CHR ''=''" v] by auto
  show "parseUnknownParamFlags_loop ((''--'' @ name @ ''='' @ v) # rest) Map.empty
        = parseUnknownParamFlags_loop rest (setProp Map.empty name (parseParamValue v))"
    using assms(1) idx nn
    by (subst parseUnknownParamFlags_loop.simps(2))
       (simp add: startsWith_def Let_def del: parseUnknownParamFlags_loop.simps)
qed

lemma flags_no_form:
  assumes "key \<noteq> []"
  shows "parseUnknownParamFlags ((''--no-'' @ key) # rest)
         = setProp Map.empty key (JBool False) ++ parseUnknownParamFlags rest"
proof (rule flags_head)
  show "parseUnknownParamFlags_loop ((''--no-'' @ key) # rest) Map.empty
        = parseUnknownParamFlags_loop rest (setProp Map.empty key (JBool False))"
    using assms
    by (subst parseUnknownParamFlags_loop.simps(2))
       (simp add: startsWith_def Let_def del: parseUnknownParamFlags_loop.simps)
qed

lemma flags_plain_name:
  assumes "name \<noteq> []" "\<not> prefix ''no-'' name" "CHR ''='' \<notin> set name"
  shows "''--'' @ name \<noteq> ''--''" "\<not> startsWith (''--'' @ name) ''--no-''"
    "startsWith (''--'' @ name) ''--''" "indexOf (''--'' @ name) CHR ''='' = None"
    "drop 2 (''--'' @ name) = name"
  using assms by (simp_all add: startsWith_def indexOf_None_iff)

lemma flags_value_form:
  assumes "name \<noteq> []" "\<not> prefix ''no-'' name" "CHR ''='' \<notin> set name"
    and "nxt \<noteq> []" "\<not> prefix ''-'' nxt \<or> minusDigit nxt"
  shows "parseUnknownParamFlags ((''--'' @ name) # nxt # rest)
         = setProp Map.empty name (parseParamValue nxt) ++ parseUnknownParamFlags rest"
proof (rule flags_head)
  show "parseUnknownParamFlags_loop ((''--'' @ name) # nxt # rest) Map.empty
        = parseUnknownParamFlags_loop rest (setProp Map.empty name (parseParamValue nxt))"
    using assms(1,4,5) flags_plain_name [OF assms(1-3)]
    by (subst parseUnknownParamFlags_loop.simps(2))
       (auto simp add: startsWith_def Let_def simp del: parseUnknownParamFlags_loop.simps)
qed

lemma flags_bare_last:
  assumes "name \<noteq> []" "\<not> prefix ''no-'' name" "CHR ''='' \<notin> set name"
  shows "parseUnknownParamFlags [''--'' @ name] = setProp Map.empty name (JBool True)"
  using assms(1) flags_plain_name [OF assms(1-3)]
  unfolding parseUnknownParamFlags_def
  by (subst parseUnknownParamFlags_loop.simps(2)) (simp add: Let_def)

lemma flags_bare_form:
  assumes "name \<noteq> []" "\<not> prefix ''no-'' name" "CHR ''='' \<notin> set name"
    and "nxt = [] \<or> (prefix ''-'' nxt \<and> \<not> minusDigit nxt)"
  shows "parseUnknownParamFlags ((''--'' @ name) # nxt # rest)
         = setProp Map.empty name (JBool True) ++ parseUnknownParamFlags (nxt # rest)"
proof (rule flags_head)
  show "parseUnknownParamFlags_loop ((''--'' @ name) # nxt # rest) Map.empty
        = parseUnknownParamFlags_loop (nxt # rest) (setProp Map.empty name (JBool True))"
    using assms(1,4) flags_plain_name [OF assms(1-3)]
    by (subst parseUnknownParamFlags_loop.simps(2))
       (auto simp add: startsWith_def Let_def simp del: parseUnknownParamFlags_loop.simps)
qed




lemma flags_skip:
  assumes "tok = [] \<or> tok = ''--'' \<or> tok = ''--no-'' \<or> \<not> prefix ''--'' tok \<or> prefix ''--='' tok"
  shows "parseUnknownParamFlags (tok # rest) = parseUnknownParamFlags rest"
proof -
  have "parseUnknownParamFlags_loop (tok # rest) Map.empty
        = parseUnknownParamFlags_loop rest Map.empty"
  proof (cases "prefix ''--='' tok")
    case True
    then obtain s where tok: "tok = ''--='' @ s"
      by (auto simp: prefix_def)
    show ?thesis
      unfolding tok
      by (subst parseUnknownParamFlags_loop.simps(2))
         (simp add: startsWith_def Let_def del: parseUnknownParamFlags_loop.simps)
  next
    case False
    with assms startsWith_no_dashes [of tok] show ?thesis
      by (subst parseUnknownParamFlags_loop.simps(2))
         (auto simp add: startsWith_def Let_def simp del: parseUnknownParamFlags_loop.simps)
  qed
  then show ?thesis
    by (simp only: parseUnknownParamFlags_def)
qed

text \<open>
  Claim C9, as amended. The equations below fix the result for every list of arguments.
  The arguments are read from left to right and a later entry overrides an earlier one
  with the same key. An empty token, the token \<^verbatim>\<open>--\<close>, the token \<^verbatim>\<open>--no-\<close>, a token
  that does not begin with \<^verbatim>\<open>--\<close> and a token that begins with \<^verbatim>\<open>--=\<close> are passed
  over. A token \<^verbatim>\<open>--no-KEY\<close> with a non-empty \<^verbatim>\<open>KEY\<close> is tested before the other
  forms: it gives \<^verbatim>\<open>KEY\<close> \<open>\<mapsto>\<close> false, whatever \<^verbatim>\<open>KEY\<close> contains and whatever follows.
  For a name that is not empty, does not begin with \<^verbatim>\<open>no-\<close> and has no \<^verbatim>\<open>=\<close>:
  \<^verbatim>\<open>--name=value\<close> gives the coerced value; \<^verbatim>\<open>--name\<close> followed by a token that is not
  empty and does not begin with a minus, or begins with a minus and a digit, gives the
  coerced token and consumes it; \<^verbatim>\<open>--name\<close> at the end, or followed by an empty token
  or by any other token that begins with a minus, gives true and consumes nothing. An
  entry is stored under every key but \<^verbatim>\<open>__proto__\<close>, for which nothing is stored. The
  coercion is that of \<^verbatim>\<open>--param\<close>: the text is trimmed; \<^verbatim>\<open>true\<close> and \<^verbatim>\<open>false\<close> give
  the booleans, any other text that converts to a number gives the number, and the rest
  stays text.
\<close>

theorem parseUnknownParamFlags_forms:
  "parseUnknownParamFlags [] = Map.empty
   \<and> (tok = [] \<or> tok = ''--'' \<or> tok = ''--no-'' \<or> \<not> prefix ''--'' tok \<or> prefix ''--='' tok \<longrightarrow>
        parseUnknownParamFlags (tok # rest) = parseUnknownParamFlags rest)
   \<and> (key \<noteq> [] \<longrightarrow>
        parseUnknownParamFlags ((''--no-'' @ key) # rest)
          = setProp Map.empty key (JBool False) ++ parseUnknownParamFlags rest)
   \<and> (name \<noteq> [] \<and> \<not> prefix ''no-'' name \<and> CHR ''='' \<notin> set name \<longrightarrow>
        parseUnknownParamFlags ((''--'' @ name @ ''='' @ v) # rest)
          = setProp Map.empty name (parseParamValue v) ++ parseUnknownParamFlags rest
        \<and> parseUnknownParamFlags [''--'' @ name] = setProp Map.empty name (JBool True)
        \<and> (nxt \<noteq> [] \<and> (\<not> prefix ''-'' nxt \<or> minusDigit nxt) \<longrightarrow>
             parseUnknownParamFlags ((''--'' @ name) # nxt # rest)
               = setProp Map.empty name (parseParamValue nxt) ++ parseUnknownParamFlags rest)
        \<and> (nxt = [] \<or> (prefix ''-'' nxt \<and> \<not> minusDigit nxt) \<longrightarrow>
             parseUnknownParamFlags ((''--'' @ name) # nxt # rest)
               = setProp Map.empty name (JBool True) ++ parseUnknownParamFlags (nxt # rest)))
   \<and> (k \<noteq> ''__proto__'' \<longrightarrow> setProp Map.empty k x = [k \<mapsto> x])
   \<and> setProp Map.empty ''__proto__'' x = Map.empty
   \<and> parseParamValue v
       = (if trim v = ''true'' then JBool True
          else if trim v = ''false'' then JBool False
          else if Number (trim v) \<noteq> NaN \<and> trim v \<noteq> [] then JNum (Number (trim v))
          else JStr (trim v))"
proof -
  have empty: "parseUnknownParamFlags [] = Map.empty"
    by (simp add: parseUnknownParamFlags_def)
  have store: "k \<noteq> ''__proto__'' \<longrightarrow> setProp Map.empty k x = [k \<mapsto> x]"
    "setProp Map.empty ''__proto__'' x = Map.empty"
    by (simp_all add: setProp_def)
  have coerce: "parseParamValue v
       = (if trim v = ''true'' then JBool True
          else if trim v = ''false'' then JBool False
          else if Number (trim v) \<noteq> NaN \<and> trim v \<noteq> [] then JNum (Number (trim v))
          else JStr (trim v))"
    by (simp add: parseParamValue_def Let_def)
  show ?thesis
    apply (intro conjI impI)
    subgoal by (rule empty)
    subgoal by (rule flags_skip)
    subgoal by (rule flags_no_form)
    subgoal by (rule flags_eq_form) blast+
    subgoal by (rule flags_bare_last) blast+
    subgoal by (rule flags_value_form) blast+
    subgoal by (rule flags_bare_form) blast+
    subgoal using store(1) by blast
    subgoal by (rule store(2))
    subgoal by (rule coerce)
    done
qed

theorem parseUnknownParamFlags_forms_witness:
  "''tag'' \<noteq> [] \<and> \<not> prefix ''no-'' ''tag'' \<and> CHR ''='' \<notin> set ''tag''
   \<and> parseUnknownParamFlags [''pos'', ''--tag'']
       = [''tag'' \<mapsto> JBool True]
   \<and> parseUnknownParamFlags [''--tag=12'', ''-v'', ''--dry'']
       = [''tag'' \<mapsto> JNum (Fin 12)] ++ [''dry'' \<mapsto> JBool True]
   \<and> parseUnknownParamFlags [''--tag'', ''-5'', ''--'', ''--dry'']
       = [''tag'' \<mapsto> JNum (Fin (- 5))] ++ [''dry'' \<mapsto> JBool True]
   \<and> parseUnknownParamFlags [''--tag'', ''--dry'']
       = [''tag'' \<mapsto> JBool True] ++ [''dry'' \<mapsto> JBool True]
   \<and> parseUnknownParamFlags [''--no-cache'', ''--dry'']
       = [''cache'' \<mapsto> JBool False] ++ [''dry'' \<mapsto> JBool True]
   \<and> parseUnknownParamFlags [''--__proto__=1'', ''--dry''] = [''dry'' \<mapsto> JBool True]
   \<and> parseParamValue ''true'' = JBool True \<and> parseParamValue ''false'' = JBool False
   \<and> parseParamValue ''12'' = JNum (Fin 12) \<and> parseParamValue ''abc'' = JStr ''abc''"
proof -
  have v: "parseParamValue ''12'' = JNum (Fin 12)" "parseParamValue ''-5'' = JNum (Fin (- 5))"
    "parseParamValue ''true'' = JBool True" "parseParamValue ''false'' = JBool False"
    "parseParamValue ''abc'' = JStr ''abc''" "parseParamValue ''1'' = JNum (Fin 1)"
    by (simp_all add: js_eval)
  have m: "minusDigit ''-5''" "\<not> minusDigit ''--dry''"
    by (simp_all add: js_eval)
  have d: "parseUnknownParamFlags [''--dry''] = [''dry'' \<mapsto> JBool True]"
    using parseUnknownParamFlags_forms
      [of "''pos''" "[]" "''cache''" "''dry''" "''12''" "''--dry''" "''dry''" "JBool True"]
    by (elim conjE) simp
  have s1: "parseUnknownParamFlags [''pos'', ''--tag''] = parseUnknownParamFlags [''--tag'']"
    using parseUnknownParamFlags_forms
      [of "''pos''" "[''--tag'']" "''cache''" "''tag''" "''12''" "''--dry''" "''tag''" "JBool True"]
    by (elim conjE) simp
  have s2: "parseUnknownParamFlags [''-v'', ''--dry''] = parseUnknownParamFlags [''--dry'']"
    using parseUnknownParamFlags_forms
      [of "''-v''" "[''--dry'']" "''cache''" "''tag''" "''12''" "''--dry''" "''tag''" "JBool True"]
    by (elim conjE) simp
  have s3: "parseUnknownParamFlags [''--'', ''--dry''] = parseUnknownParamFlags [''--dry'']"
    using parseUnknownParamFlags_forms
      [of "''--''" "[''--dry'']" "''cache''" "''tag''" "''12''" "''--dry''" "''tag''" "JBool True"]
    by (elim conjE) simp
  note skips = s1 s2 s3
  have t1: "parseUnknownParamFlags [''--tag''] = [''tag'' \<mapsto> JBool True]"
    using parseUnknownParamFlags_forms
      [of "''pos''" "[]" "''cache''" "''tag''" "''12''" "''--dry''" "''tag''" "JBool True"]
    by (elim conjE) simp
  have t2: "parseUnknownParamFlags [''--tag=12'', ''-v'', ''--dry'']
       = [''tag'' \<mapsto> JNum (Fin 12)] ++ [''dry'' \<mapsto> JBool True]"
    using parseUnknownParamFlags_forms
      [of "''pos''" "[''-v'', ''--dry'']" "''cache''" "''tag''" "''12''" "''--dry''" "''tag''" "JNum (Fin 12)"]
    by (elim conjE) (simp add: v skips d)
  have t3: "parseUnknownParamFlags [''--tag'', ''-5'', ''--'', ''--dry'']
       = [''tag'' \<mapsto> JNum (Fin (- 5))] ++ [''dry'' \<mapsto> JBool True]"
    using m parseUnknownParamFlags_forms
      [of "''pos''" "[''--'', ''--dry'']" "''cache''" "''tag''" "''12''" "''-5''" "''tag''" "JNum (Fin (- 5))"]
    by (elim conjE) (simp add: v skips d)
  have t4: "parseUnknownParamFlags [''--tag'', ''--dry'']
       = [''tag'' \<mapsto> JBool True] ++ [''dry'' \<mapsto> JBool True]"
    using m parseUnknownParamFlags_forms
      [of "''pos''" "[]" "''cache''" "''tag''" "''12''" "''--dry''" "''tag''" "JBool True"]
    by (elim conjE) (simp add: d)
  have t5: "parseUnknownParamFlags [''--no-cache'', ''--dry'']
       = [''cache'' \<mapsto> JBool False] ++ [''dry'' \<mapsto> JBool True]"
    using parseUnknownParamFlags_forms
      [of "''pos''" "[''--dry'']" "''cache''" "''tag''" "''12''" "''--dry''" "''cache''" "JBool False"]
    by (elim conjE) (simp add: d)
  have t6: "parseUnknownParamFlags [''--__proto__=1'', ''--dry''] = [''dry'' \<mapsto> JBool True]"
    using parseUnknownParamFlags_forms
      [of "''pos''" "[''--dry'']" "''cache''" "''__proto__''" "''1''" "''--dry''" "''tag''" "JNum (Fin 1)"]
    by (elim conjE) (simp add: v d)
  show ?thesis
    using v s1 t1 t2 t3 t4 t5 t6 by simp
qed

theorem parseUnknownParamFlags_counterexample:
  "parseUnknownParamFlags [''--no-x=5''] ''no-x'' = None
   \<and> parseUnknownParamFlags [''--no-x=5''] ''no-x'' \<noteq> Some (parseParamValue ''5'')
   \<and> parseUnknownParamFlags [''--no-x=5''] ''x=5'' = Some (JBool False)
   \<and> parseUnknownParamFlags [''--tag'', []] ''tag'' = Some (JBool True)
   \<and> parseUnknownParamFlags [''--tag'', []] ''tag'' \<noteq> Some (parseParamValue [])"
  by (simp add: parseUnknownParamFlags_def setProp_def js_eval)

subsection \<open>Pipeline selection\<close>

lemma normalizePipelineEntry_id:
  "normalizePipelineEntry entry = Some e \<Longrightarrow> entry_id e \<noteq> NaN"
  by (auto simp: normalizePipelineEntry_def Let_def split: option.splits if_splits)

lemma listConfigPipelines_id:
  "(key, e) \<in> set (listConfigPipelines pipelines) \<Longrightarrow> entry_id e \<noteq> NaN"
  by (auto simp: listConfigPipelines_def List.map_filter_def normalizePipelineEntry_id
      split: option.splits)

lemma find_in_set: "find P xs = Some x \<Longrightarrow> x \<in> set xs"
  by (induction xs) (auto split: if_splits)

lemma find_None_absent: "find P xs = None \<longleftrightarrow> (\<forall>x \<in> set xs. \<not> P x)"
  by (induction xs) auto

lemma sampleConfig_entries:
  "listConfigPipelines (cfg_pipelines sampleConfig)
   = [(''android_staging'',
       \<lparr>entry_id = Fin 7, entry_name = None, entry_branch = Some ''develop'',
         entry_path = Some ''ci/android-staging.yml''\<rparr>)]"
  by (simp add: sampleConfig_def listConfigPipelines_def List.map_filter_def
      normalizePipelineEntry_def)

text \<open>
  Claim C2, as amended. The \<^verbatim>\<open>id\<close> of a returned selection is a number that is not
  \<^verbatim>\<open>NaN\<close>: the resolver tests the identifier and the catalog entries with
  \<^verbatim>\<open>Number.isNaN\<close> only, so the number need not be an integer. When the identifier
  converts to a number that no catalog entry has as its id, the result is the bare
  selection whose only populated field is that number.
\<close>

theorem resolvePipelineSelection_id_is_number:
  "(resolvePipelineSelection pick config pipelineArg = Inr sel \<longrightarrow> sel_id sel \<noteq> NaN)
   \<and> (arg \<noteq> [] \<and> Number arg \<noteq> NaN
        \<and> Number arg \<notin> set (map (entry_id \<circ> snd) (listConfigPipelines (cfg_pipelines config)))
      \<longrightarrow> resolvePipelineSelection pick config (Some arg)
            = Inr \<lparr>sel_key = None, sel_id = Number arg, sel_name = None, sel_branch = None,
                   sel_path = None\<rparr>)"
proof (intro conjI impI)
  assume r: "resolvePipelineSelection pick config pipelineArg = Inr sel"
  have ids: "entry_id e \<noteq> NaN"
    if "find P (listConfigPipelines (cfg_pipelines config)) = Some (key, e)" for P key e
    using find_in_set [OF that] listConfigPipelines_id by blast
  from r show "sel_id sel \<noteq> NaN"
    by (auto simp: resolvePipelineSelection_def Let_def selectionOf_def exitIfCancel_def
        split: if_splits option.splits sum.splits answer.splits prod.splits dest: ids)
next
  assume a: "arg \<noteq> [] \<and> Number arg \<noteq> NaN
        \<and> Number arg \<notin> set (map (entry_id \<circ> snd) (listConfigPipelines (cfg_pipelines config)))"
  then have "find (\<lambda>(key, e). entry_id e = Number arg) (listConfigPipelines (cfg_pipelines config)) = None"
    by (force simp: find_None_absent)
  with a show "resolvePipelineSelection pick config (Some arg)
            = Inr \<lparr>sel_key = None, sel_id = Number arg, sel_name = None, sel_branch = None,
                   sel_path = None\<rparr>"
    by (simp add: resolvePipelineSelection_def Let_def selectionOf_def)
qed

theorem resolvePipelineSelection_id_is_number_witness:
  "resolvePipelineSelection noPick sampleConfig (Some ''7'')
     = Inr \<lparr>sel_key = Some ''android_staging'', sel_id = Fin 7,
            sel_name = Some ''android_staging'', sel_branch = Some ''develop'',
            sel_path = Some ''ci/android-staging.yml''\<rparr>
   \<and> Fin 7 \<noteq> NaN
   \<and> ''12'' \<noteq> [] \<and> Number ''12'' \<noteq> NaN
   \<and> Number ''12''
       \<notin> set (map (entry_id \<circ> snd) (listConfigPipelines (cfg_pipelines sampleConfig)))
   \<and> resolvePipelineSelection noPick sampleConfig (Some ''12'')
       = Inr \<lparr>sel_key = None, sel_id = Fin 12, sel_name = None, sel_branch = None,
              sel_path = None\<rparr>"
proof -
  have n7: "Number ''7'' = Fin 7" and n12: "Number ''12'' = Fin 12"
    by (simp_all add: js_eval)
  have r: "resolvePipelineSelection noPick sampleConfig (Some ''7'')
     = Inr \<lparr>sel_key = Some ''android_staging'', sel_id = Fin 7,
            sel_name = Some ''android_staging'', sel_branch = Some ''develop'',
            sel_path = Some ''ci/android-staging.yml''\<rparr>"
    by (simp add: resolvePipelineSelection_def n7 sampleConfig_entries selectionOf_def)
  have h: "''12'' \<noteq> [] \<and> Number ''12'' \<noteq> NaN
    \<and> Number ''12''
        \<notin> set (map (entry_id \<circ> snd) (listConfigPipelines (cfg_pipelines sampleConfig)))"
    by (simp add: n12 sampleConfig_entries)
  show ?thesis
    using r h
      resolvePipelineSelection_id_is_number [of noPick sampleConfig "Some ''7''" _ "''12''"]
    by (simp add: n12)
qed

theorem resolvePipelineSelection_fractional_id:
  "resolvePipelineSelection noPick sampleConfig (Some ''1.5'')
     = Inr \<lparr>sel_key = None, sel_id = Fin (3 / 2), sel_name = None, sel_branch = None,
            sel_path = None\<rparr>
   \<and> \<not> validInteger (Fin (3 / 2))"
proof -
  have n: "Number ''1.5'' = Fin (3 / 2)"
    by (simp add: js_eval)
  have "\<not> validInteger (Fin (3 / 2))"
    by code_simp
  then show ?thesis
    by (simp add: resolvePipelineSelection_def n sampleConfig_entries selectionOf_def)
qed

subsection \<open>Declared parameters\<close>

text \<open>
  Claim C3. Whatever else the document holds, when its \<^verbatim>\<open>parameters\<close> section is the
  sequence \<^verbatim>\<open>[{name: "a", type: "boolean", default: true}, "b"]\<close> the extractor
  returns exactly the boolean parameter \<^verbatim>\<open>a\<close> with default true and the string
  parameter \<^verbatim>\<open>b\<close> without default; when it is the mapping \<^verbatim>\<open>{c: 3}\<close> it returns exactly
  the number parameter \<^verbatim>\<open>c\<close> with default 3; when there is no such section it returns
  the empty list. In none of the three is there a list of allowed values.
\<close>

theorem extractParamsFromYaml_forms:
  "(yamlParse yamlText = Inr doc
      \<and> getProp doc ''parameters''
          = JArr [JObj [(''name'', JStr ''a''), (''type'', JStr ''boolean''), (''default'', JBool True)],
                  JStr ''b'']
    \<longrightarrow> extractParamsFromYaml yamlParse yamlText
          = Inr [\<lparr>spec_name = ''a'', spec_type = ''boolean'', spec_default = JBool True,
                    spec_values = None\<rparr>,
                 \<lparr>spec_name = ''b'', spec_type = ''string'', spec_default = JUndefined,
                    spec_values = None\<rparr>])
   \<and> (yamlParse yamlText = Inr doc \<and> getProp doc ''parameters'' = JObj [(''c'', JNum (Fin 3))]
    \<longrightarrow> extractParamsFromYaml yamlParse yamlText
          = Inr [\<lparr>spec_name = ''c'', spec_type = ''number'', spec_default = JNum (Fin 3),
                    spec_values = None\<rparr>])
   \<and> (yamlParse yamlText = Inr doc \<and> getProp doc ''parameters'' = JUndefined
    \<longrightarrow> extractParamsFromYaml yamlParse yamlText = Inr [])"
  by (simp add: extractParamsFromYaml_def truthy_def List.map_filter_def normalizeParamSpec_def
      getProp_def inferParamType_def)


theorem extractParamsFromYaml_forms_witness:
  "parsesTo (JObj [(''trigger'', JStr ''none''),
                   (''parameters'',
                    JArr [JObj [(''name'', JStr ''a''), (''type'', JStr ''boolean''),
                                (''default'', JBool True)],
                          JStr ''b''])]) ''text'' 
     = Inr (JObj [(''trigger'', JStr ''none''),
                  (''parameters'',
                   JArr [JObj [(''name'', JStr ''a''), (''type'', JStr ''boolean''),
                               (''default'', JBool True)],
                         JStr ''b''])])
   \<and> extractParamsFromYaml
        (parsesTo (JObj [(''trigger'', JStr ''none''),
                         (''parameters'',
                          JArr [JObj [(''name'', JStr ''a''), (''type'', JStr ''boolean''),
                                      (''default'', JBool True)],
                                JStr ''b''])])) ''text''
       = Inr [\<lparr>spec_name = ''a'', spec_type = ''boolean'', spec_default = JBool True,
                 spec_values = None\<rparr>,
              \<lparr>spec_name = ''b'', spec_type = ''string'', spec_default = JUndefined,
                 spec_values = None\<rparr>]
   \<and> extractParamsFromYaml (parsesTo (JObj [(''parameters'', JObj [(''c'', JNum (Fin 3))])]))
        ''text''
       = Inr [\<lparr>spec_name = ''c'', spec_type = ''number'', spec_default = JNum (Fin 3),
                 spec_values = None\<rparr>]
   \<and> extractParamsFromYaml (parsesTo (JObj [(''trigger'', JStr ''none'')])) ''text'' = Inr []
   \<and> extractParamsFromYaml (parsesTo JNull) ''text'' = Inr []"
  using
    extractParamsFromYaml_forms [of
      "parsesTo (JObj [(''trigger'', JStr ''none''),
                       (''parameters'',
                        JArr [JObj [(''name'', JStr ''a''), (''type'', JStr ''boolean''),
                                    (''default'', JBool True)],
                              JStr ''b''])])"
      "''text''"
      "JObj [(''trigger'', JStr ''none''),
             (''parameters'',
              JArr [JObj [(''name'', JStr ''a''), (''type'', JStr ''boolean''),
                          (''default'', JBool True)],
                    JStr ''b''])]"]
    extractParamsFromYaml_forms [of
      "parsesTo (JObj [(''parameters'', JObj [(''c'', JNum (Fin 3))])])" "''text''"
      "JObj [(''parameters'', JObj [(''c'', JNum (Fin 3))])]"]
    extractParamsFromYaml_forms [of
      "parsesTo (JObj [(''trigger'', JStr ''none'')])" "''text''"
      "JObj [(''trigger'', JStr ''none'')]"]
    extractParamsFromYaml_forms [of "parsesTo JNull" "''text''" JNull]
  by (simp add: parsesTo_def getProp_def)

subsection \<open>The locator\<close>

lemma set_scoredCandidates:
  "set (scoredCandidates files pipelineKey pipelineName)
   = {(f, scoreYamlCandidate f pipelineKey pipelineName) | f.
        f \<in> set files \<and> 0 < scoreYamlCandidate f pipelineKey pipelineName}"
  by (auto simp: scoredCandidates_def)

lemma score_android:
  "scoreYamlCandidate ''ci/android-staging.yml'' (Some ''android_staging'') None = 12"
  by code_simp

lemma score_ios: "scoreYamlCandidate ''ci/ios.yml'' (Some ''android_staging'') None = 0"
  by code_simp

text \<open>The \<^verbatim>\<open>build\<close> command passes the name of the selection, which is the key when the
  catalog entry has no name; the name then adds its own two signals.\<close>

lemma score_android_named:
  "scoreYamlCandidate ''ci/android-staging.yml'' (Some ''android_staging'')
     (Some ''android_staging'') = 21"
  by code_simp

lemma norm_facts:
  "toLowerCase (basename ''ci/android-staging.yml'' (extname ''ci/android-staging.yml'')) = ''android-staging''"
  "normalizeForMatch (Some ''android-staging'') = ''androidstaging''"
  "normalizeForMatch (Some ''ci/android-staging.yml'') = ''ciandroidstagingyml''"
  "normalizeForMatch (Some ''android_staging'') = ''androidstaging''"
  "includes_str ''androidstaging'' ''androidstaging''"
  "includes_str ''ciandroidstagingyml'' ''androidstaging''"
  by code_simp+

text \<open>
  Claim C4. \<^verbatim>\<open>scoreYamlCandidate\<close> reads nothing but its three arguments, so it is a
  function of them, and every candidate the locator keeps carries the value of that
  function at its path. With the key \<^verbatim>\<open>android_staging\<close> and no name, the path
  \<^verbatim>\<open>ci/android-staging.yml\<close> scores 12: its base name \<^verbatim>\<open>android-staging\<close> and the
  whole path both contain the key once normalised (8 and 4), and no other signal holds.
  \<^verbatim>\<open>ci/ios.yml\<close> scores 0; the locator keeps no candidate of score 0, so it never
  returns that file for this key, whatever the other files are.
\<close>

theorem scoreYamlCandidate_example:
  "scoreYamlCandidate ''ci/android-staging.yml'' (Some ''android_staging'') None = 12
   \<and> toLowerCase (basename ''ci/android-staging.yml'' (extname ''ci/android-staging.yml''))
       = ''android-staging''
   \<and> normalizeForMatch (Some ''android-staging'') = ''androidstaging''
   \<and> normalizeForMatch (Some ''ci/android-staging.yml'') = ''ciandroidstagingyml''
   \<and> normalizeForMatch (Some ''android_staging'') = ''androidstaging''
   \<and> includes_str ''androidstaging'' ''androidstaging''
   \<and> includes_str ''ciandroidstagingyml'' ''androidstaging''
   \<and> scoreYamlCandidate ''ci/ios.yml'' (Some ''android_staging'') None = 0
   \<and> set (scoredCandidates files pipelineKey pipelineName)
       = {(f, scoreYamlCandidate f pipelineKey pipelineName) | f.
            f \<in> set files \<and> 0 < scoreYamlCandidate f pipelineKey pipelineName}
   \<and> ''ci/ios.yml'' \<notin> fst ` set (scoredCandidates files (Some ''android_staging'') None)
   \<and> selectLocalYamlFile pick [''ci/ios.yml''] (Some ''android_staging'') None interactive
       = Inr None
   \<and> selectLocalYamlFile pick [''ci/ios.yml'', ''ci/android-staging.yml'']
         (Some ''android_staging'') None interactive
       = Inr (Some ''ci/android-staging.yml'')"
proof -
  have discarded: "''ci/ios.yml'' \<notin> fst ` set (scoredCandidates files (Some ''android_staging'') None)"
    by (auto simp: set_scoredCandidates score_ios)
  have c1: "scoredCandidates [''ci/ios.yml''] (Some ''android_staging'') None = []"
    by (simp add: scoredCandidates_def score_ios)
  have c2: "scoredCandidates [''ci/ios.yml'', ''ci/android-staging.yml''] (Some ''android_staging'') None
      = [(''ci/android-staging.yml'', 12)]"
    by (simp add: scoredCandidates_def score_ios score_android)
  show ?thesis
    using discarded
    by (simp add: score_android score_ios norm_facts set_scoredCandidates selectLocalYamlFile_def c1 c2)
qed


theorem scoreYamlCandidate_example_witness:
  "scoreYamlCandidate ''ci/android-staging.yml'' (Some ''android_staging'') None = 12
   \<and> scoreYamlCandidate ''ci/ios.yml'' (Some ''android_staging'') None = 0
   \<and> selectLocalYamlFile noPick [''ci/ios.yml''] (Some ''android_staging'') None True
       = Inr None
   \<and> selectLocalYamlFile noPick [''ci/ios.yml'', ''ci/android-staging.yml'']
         (Some ''android_staging'') None True
       = Inr (Some ''ci/android-staging.yml'')"
  using scoreYamlCandidate_example [of "[''ci/ios.yml'']" "Some ''android_staging''" None
      noPick True]
  by simp

subsection \<open>The completion monitor\<close>

lemma waitForCompletion_loop_error:
  "getRun (queries m) = Inl e \<Longrightarrow>
   waitForCompletion_loop getRun now options started m = Some (Inl e, m\<lparr>queries := Suc (queries m)\<rparr>)"
  by (subst waitForCompletion_loop.simps) simp

lemma waitForCompletion_loop_completed:
  "getRun (queries m) = Inr run \<Longrightarrow> run_state run = Some ''completed'' \<Longrightarrow>
   waitForCompletion_loop getRun now options started m =
     Some (Inr run, m\<lparr>queries := Suc (queries m), observer := notify options run (observer m)\<rparr>)"
  by (subst waitForCompletion_loop.simps) simp

lemma waitForCompletion_loop_timeout:
  "getRun (queries m) = Inr run \<Longrightarrow> run_state run \<noteq> Some ''completed'' \<Longrightarrow>
   now (clockReads m) - started > timeoutMs options \<Longrightarrow>
   waitForCompletion_loop getRun now options started m =
     Some (Inl TimedOut, m\<lparr>queries := Suc (queries m), observer := notify options run (observer m),
                           clockReads := Suc (clockReads m)\<rparr>)"
  by (subst waitForCompletion_loop.simps) (simp add: Let_def)

lemma waitForCompletion_loop_continue:
  "getRun (queries m) = Inr run \<Longrightarrow> run_state run \<noteq> Some ''completed'' \<Longrightarrow>
   \<not> now (clockReads m) - started > timeoutMs options \<Longrightarrow>
   waitForCompletion_loop getRun now options started m =
     waitForCompletion_loop getRun now options started
       (m\<lparr>queries := Suc (queries m), observer := notify options run (observer m),
          clockReads := Suc (clockReads m), suspensions := suspensions m @ [pollMs options]\<rparr>)"
  by (subst waitForCompletion_loop.simps) (simp add: Let_def)

lemmas monitor_steps = waitForCompletion_loop_error waitForCompletion_loop_completed
  waitForCompletion_loop_timeout waitForCompletion_loop_continue

lemma waitForCompletion_loop_queries:
  assumes "waitForCompletion_loop getRun now options started m = Some y"
  shows "queries m < queries (snd y)"
proof (rule waitForCompletion_loop.raw_induct
    [where P = "\<lambda>g n opt st m' y'. queries m' < queries (snd y')", OF _ assms])
  fix loop :: "(nat \<Rightarrow> error + RunInfo) \<Rightarrow> (nat \<Rightarrow> int) \<Rightarrow> 'a WaitOptions \<Rightarrow> int \<Rightarrow> 'a monitor
     \<Rightarrow> ((error + RunInfo) \<times> 'a monitor) option"
  fix g n opt st m' y'
  assume IH: "\<And>g n opt st m' y'. loop g n opt st m' = Some y' \<Longrightarrow> queries m' < queries (snd y')"
  assume body: "(case g (queries m') of
        Inl e \<Rightarrow> Some (Inl e, m'\<lparr>queries := Suc (queries m')\<rparr>)
      | Inr run \<Rightarrow>
          (let m1 = m'\<lparr>queries := Suc (queries m'),
                      observer := notify opt run (observer m')\<rparr>
           in if run_state run = Some ''completed'' then Some (Inr run, m1)
              else if n (clockReads m1) - st > timeoutMs opt
              then Some (Inl TimedOut, m1\<lparr>clockReads := Suc (clockReads m1)\<rparr>)
              else loop g n opt st
                     (m1\<lparr>clockReads := Suc (clockReads m1),
                         suspensions := suspensions m1 @ [pollMs opt]\<rparr>))) = Some y'"
  show "queries m' < queries (snd y')"
  proof (cases "g (queries m')")
    case (Inl e)
    with body show ?thesis by auto
  next
    case (Inr run)
    show ?thesis
    proof (cases "run_state run = Some ''completed'' \<or> n (clockReads m') - st > timeoutMs opt")
      case True
      with body Inr show ?thesis by (auto simp: Let_def split: if_splits)
    next
      case False
      with body Inr have "loop g n opt st
          (m'\<lparr>queries := Suc (queries m'), observer := notify opt run (observer m'),
              clockReads := Suc (clockReads m'),
              suspensions := suspensions m' @ [pollMs opt]\<rparr>) = Some y'"
        by (simp add: Let_def)
      from IH [OF this] show ?thesis by simp
    qed
  qed
qed

lemmas monitor_inputs = threeResponses_def twoResponses_def runInState_def sleepingClock_def
  tickingClock_def loggingOptions_def notify_def

text \<open>
  Claim C5, as amended. When the first three responses of \<^verbatim>\<open>getRun\<close> are a queued, an
  in-progress and a completed run, and the time read after the first and after the
  second response is within the timeout, the monitor returns the third response, has
  called the observer with the three responses in order, has queried three times and has
  suspended exactly twice, each time for the poll interval.
\<close>

theorem waitForCompletion_three_responses:
  assumes "getRun 0 = Inr r1" "run_state r1 = Some ''queued''"
    and "getRun 1 = Inr r2" "run_state r2 = Some ''inProgress''"
    and "getRun 2 = Inr r3" "run_state r3 = Some ''completed''"
    and "now 1 - now 0 \<le> timeoutMs options" "now 2 - now 0 \<le> timeoutMs options"
  shows "waitForCompletion getRun now options s0 =
    Some (Inr r3, \<lparr>queries = 3, clockReads = 3, suspensions = [pollMs options, pollMs options],
       observer = notify options r3 (notify options r2 (notify options r1 s0))\<rparr>)"
  using assms
  by (simp add: waitForCompletion_def monitor_steps numeral_3_eq_3 numeral_2_eq_2)

theorem waitForCompletion_three_responses_witness:
  "threeResponses 0 = Inr (runInState ''queued'') \<and> run_state (runInState ''queued'') = Some ''queued''
   \<and> threeResponses 1 = Inr (runInState ''inProgress'')
   \<and> run_state (runInState ''inProgress'') = Some ''inProgress''
   \<and> threeResponses 2 = Inr (runInState ''completed'')
   \<and> run_state (runInState ''completed'') = Some ''completed''
   \<and> sleepingClock 10 1 - sleepingClock 10 0 \<le> timeoutMs (loggingOptions 10 3600000)
   \<and> sleepingClock 10 2 - sleepingClock 10 0 \<le> timeoutMs (loggingOptions 10 3600000)
   \<and> waitForCompletion threeResponses (sleepingClock 10) (loggingOptions 10 3600000) []
       = Some (Inr (runInState ''completed''),
               \<lparr>queries = 3, clockReads = 3, suspensions = [10, 10],
                observer = [runInState ''queued'', runInState ''inProgress'',
                            runInState ''completed'']\<rparr>)"
proof -
  have r: "threeResponses 0 = Inr (runInState ''queued'')"
    "run_state (runInState ''queued'') = Some ''queued''"
    "threeResponses 1 = Inr (runInState ''inProgress'')"
    "run_state (runInState ''inProgress'') = Some ''inProgress''"
    "threeResponses 2 = Inr (runInState ''completed'')"
    "run_state (runInState ''completed'') = Some ''completed''"
    by (simp_all add: threeResponses_def runInState_def)
  have c: "sleepingClock 10 1 - sleepingClock 10 0 \<le> timeoutMs (loggingOptions 10 3600000)"
    "sleepingClock 10 2 - sleepingClock 10 0 \<le> timeoutMs (loggingOptions 10 3600000)"
    by (simp_all add: sleepingClock_def loggingOptions_def)
  show ?thesis
    using r c waitForCompletion_three_responses [OF r c, of "[]"]
    by (simp add: loggingOptions_def notify_def)
qed

text \<open>With a poll interval above the timeout the second response is the last one the
  monitor reads, although the third would report the completed run.\<close>

theorem waitForCompletion_timeout_before_third:
  "threeResponses 0 = Inr (runInState ''queued'')
   \<and> threeResponses 1 = Inr (runInState ''inProgress'')
   \<and> threeResponses 2 = Inr (runInState ''completed'')
   \<and> waitForCompletion threeResponses (sleepingClock 4000000) (loggingOptions 4000000 3600000) []
       = Some (Inl TimedOut,
               \<lparr>queries = 2, clockReads = 3, suspensions = [4000000],
                observer = [runInState ''queued'', runInState ''inProgress'']\<rparr>)"
  by (simp add: waitForCompletion_def monitor_steps monitor_inputs)

text \<open>
  Claim C6, as amended. The first thing the monitor does is a query, so every outcome,
  a timeout included, comes after at least one query. When the first response is not a
  completed run, the monitor fails with the timeout error right away if more than the
  timeout (5 ms in the claim) has elapsed since the start; if not, it suspends for the poll
  interval (10 ms) and queries again, and then returns the second response if that one
  is completed, or fails with the timeout error if it is not and the timeout has elapsed
  by then.
\<close>

theorem waitForCompletion_first_query:
  "(waitForCompletion getRun now options s0 = Some (outcome, m) \<longrightarrow> 1 \<le> queries m)
   \<and> (getRun 0 = Inr r1 \<and> run_state r1 \<noteq> Some ''completed'' \<longrightarrow>
        (timeoutMs options < now 1 - now 0 \<longrightarrow>
           waitForCompletion getRun now options s0
             = Some (Inl TimedOut, \<lparr>queries = 1, clockReads = 2, suspensions = [],
                                     observer = notify options r1 s0\<rparr>))
        \<and> (now 1 - now 0 \<le> timeoutMs options \<longrightarrow>
             waitForCompletion getRun now options s0
               = waitForCompletion_loop getRun now options (now 0)
                   \<lparr>queries = 1, clockReads = 2, suspensions = [pollMs options],
                    observer = notify options r1 s0\<rparr>
             \<and> (getRun 1 = Inr r2 \<and> run_state r2 = Some ''completed'' \<longrightarrow>
                  waitForCompletion getRun now options s0
                    = Some (Inr r2, \<lparr>queries = 2, clockReads = 2, suspensions = [pollMs options],
                                      observer = notify options r2 (notify options r1 s0)\<rparr>))
             \<and> (getRun 1 = Inr r2 \<and> run_state r2 \<noteq> Some ''completed''
                  \<and> timeoutMs options < now 2 - now 0 \<longrightarrow>
                  waitForCompletion getRun now options s0
                    = Some (Inl TimedOut,
                            \<lparr>queries = 2, clockReads = 3, suspensions = [pollMs options],
                             observer = notify options r2 (notify options r1 s0)\<rparr>))))"
proof -
  have "1 \<le> queries m" if "waitForCompletion getRun now options s0 = Some (outcome, m)"
    using waitForCompletion_loop_queries [OF that [unfolded waitForCompletion_def]] by simp
  then show ?thesis
    by (auto simp: waitForCompletion_def monitor_steps numeral_2_eq_2)
qed


theorem waitForCompletion_first_query_witness:
  "twoResponses 0 = Inr (runInState ''queued'')
   \<and> run_state (runInState ''queued'') \<noteq> Some ''completed''
   \<and> timeoutMs (loggingOptions 10 5) < tickingClock 8 1 - tickingClock 8 0
   \<and> waitForCompletion twoResponses (tickingClock 8) (loggingOptions 10 5) []
       = Some (Inl TimedOut,
               \<lparr>queries = 1, clockReads = 2, suspensions = [],
                observer = [runInState ''queued'']\<rparr>)
   \<and> 1 \<le> queries \<lparr>queries = 1, clockReads = 2, suspensions = [],
                    observer = [runInState ''queued'']\<rparr>"
proof -
  have h: "twoResponses 0 = Inr (runInState ''queued'')
      \<and> run_state (runInState ''queued'') \<noteq> Some ''completed''"
    "timeoutMs (loggingOptions 10 5) < tickingClock 8 1 - tickingClock 8 0"
    by (simp_all add: monitor_inputs)
  show ?thesis
    using h
      waitForCompletion_first_query [of twoResponses "tickingClock 8" "loggingOptions 10 5" "[]"
        "Inl TimedOut"
        "\<lparr>queries = 1, clockReads = 2, suspensions = [], observer = [runInState ''queued'']\<rparr>"
        "runInState ''queued''" "runInState ''completed''"]
    by (simp add: loggingOptions_def notify_def)
qed

text \<open>A first query that returns at once: nothing has elapsed at the check, the monitor
  suspends and the second response ends the wait without an error.\<close>

theorem waitForCompletion_fast_first_query:
  "twoResponses 0 = Inr (runInState ''queued'')
   \<and> run_state (runInState ''queued'') \<noteq> Some ''completed''
   \<and> waitForCompletion twoResponses (sleepingClock 10) (loggingOptions 10 5) []
       = Some (Inr (runInState ''completed''),
               \<lparr>queries = 2, clockReads = 2, suspensions = [10],
                observer = [runInState ''queued'', runInState ''completed'']\<rparr>)
   \<and> waitForCompletion twoResponses (sleepingClock 10) (loggingOptions 10 5) []
       \<noteq> Some (Inl TimedOut, \<lparr>queries = 1, clockReads = 2, suspensions = [],
                                observer = [runInState ''queued'']\<rparr>)"
  by (simp add: waitForCompletion_def monitor_steps monitor_inputs)


subsection \<open>Cancelled prompts\<close>

text \<open>
  Claim C8, as amended. A cancelled prompt ends the process at once with exit code 1:
  \<^verbatim>\<open>exitIfCancel\<close> calls \<^verbatim>\<open>process.exit(1)\<close>. The parameter prompts stop at the
  cancelled one, whatever parameters are left, and so does the selection of a pipeline.
\<close>

theorem cancel_exits_with_code_1:
  "exitIfCancel Cancel = Inl (ProcessExit 1)
   \<and> exitCode (ProcessExit 1) = 1
   \<and> (ask_select user i param = Cancel \<and> ask_confirm user i param = Cancel
        \<and> ask_text user i param = Cancel
      \<longrightarrow> promptForParameters_loop jsonParse user i (param # rest) result = Inl (ProcessExit 1))
   \<and> (listConfigPipelines (cfg_pipelines config) \<noteq> []
        \<and> pick (map fst (listConfigPipelines (cfg_pipelines config))) = Cancel
      \<longrightarrow> resolvePipelineSelection pick config None = Inl (ProcessExit 1))"
  by (simp add: exitIfCancel_def exitCode_def promptForParameters_step_def Let_def
      resolvePipelineSelection_def)

theorem cancel_exit_code_not_zero:
  "exitIfCancel (Cancel :: string answer) = Inl (ProcessExit 1) \<and> exitCode (ProcessExit 1) \<noteq> 0"
  by (simp add: exitIfCancel_def exitCode_def)

theorem cancel_exits_with_code_1_witness:
  "ask_select cancellingUser 0 (sampleSpecs ! 0) = Cancel
   \<and> ask_confirm cancellingUser 0 (sampleSpecs ! 0) = Cancel
   \<and> ask_text cancellingUser 0 (sampleSpecs ! 0) = Cancel
   \<and> promptForParameters noJson cancellingUser sampleSpecs = Inl (ProcessExit 1)
   \<and> listConfigPipelines (cfg_pipelines sampleConfig) \<noteq> []
   \<and> noPick (map fst (listConfigPipelines (cfg_pipelines sampleConfig))) = Cancel
   \<and> resolvePipelineSelection noPick sampleConfig None = Inl (ProcessExit 1)"
proof -
  have specs: "sampleSpecs = sampleSpecs ! 0 # [sampleSpecs ! 1]"
    by (simp add: sampleSpecs_def)
  have h: "ask_select cancellingUser 0 (sampleSpecs ! 0) = Cancel
      \<and> ask_confirm cancellingUser 0 (sampleSpecs ! 0) = Cancel
      \<and> ask_text cancellingUser 0 (sampleSpecs ! 0) = Cancel"
    "listConfigPipelines (cfg_pipelines sampleConfig) \<noteq> []
      \<and> noPick (map fst (listConfigPipelines (cfg_pipelines sampleConfig))) = Cancel"
    by (simp_all add: cancellingUser_def noPick_def sampleConfig_entries)
  have unfolded: "promptForParameters noJson cancellingUser sampleSpecs
      = promptForParameters_loop noJson cancellingUser 0 (sampleSpecs ! 0 # [sampleSpecs ! 1])
          Map.empty"
    unfolding promptForParameters_def using specs by metis
  have "promptForParameters_loop noJson cancellingUser 0 (sampleSpecs ! 0 # [sampleSpecs ! 1])
          Map.empty = Inl (ProcessExit 1)
      \<and> resolvePipelineSelection noPick sampleConfig None = Inl (ProcessExit 1)"
    using h
      cancel_exits_with_code_1 [of cancellingUser 0 "sampleSpecs ! 0" noJson "[sampleSpecs ! 1]"
        Map.empty sampleConfig noPick]
    by blast
  with h show ?thesis
    unfolding unfolded by blast
qed

subsection \<open>The definition file of the \<^verbatim>\<open>build\<close> command\<close>

lemma lookupYaml_local:
  assumes "sel_path selection = Some p" "p \<noteq> []" "env_readFile env p = Some content"
    "content \<noteq> []"
  shows "lookupYaml env selection = (Some (content, p), None, None)"
  using assms by (simp add: lookupYaml_def usableYaml_def readLocalYaml_def)

lemma lookupYaml_unreadable:
  assumes "sel_path selection = Some p" "env_readFile env p = None"
  shows "lookupYaml env selection = lookupYaml env (selection\<lparr>sel_path := None\<rparr>)"
  using assms by (simp add: lookupYaml_def usableYaml_def readLocalYaml_def)

lemma buildParameters_local_parse:
  assumes "sel_path selection = Some p" "p \<noteq> []" "env_readFile env p = Some content"
    "content \<noteq> []" "env_yamlParse env content = Inl err"
  shows "buildParameters env selection prompt paramEntries args = Inl err"
  using assms lookupYaml_local [OF assms(1-4)]
  by (simp add: buildParameters_def locateYaml_def yamlParameters_def extractParamsFromYaml_def)

lemma buildParameters_unreadable:
  assumes "sel_path selection = Some p" "env_readFile env p = None"
  shows "buildParameters env selection prompt paramEntries args
        = buildParameters env (selection\<lparr>sel_path := None\<rparr>) prompt paramEntries args"
  using lookupYaml_unreadable [OF assms]
  by (cases "lookupYaml env (selection\<lparr>sel_path := None\<rparr>)")
     (simp add: buildParameters_def locateYaml_def)

text \<open>
  Claim C7. A definition file that cannot be read is the same as no file: the action goes
  on to the remote definition. A file that is read and that \<^verbatim>\<open>YAML.parse\<close> rejects is
  not: the exception leaves \<^verbatim>\<open>extractParamsFromYaml\<close>, no other source is tried, and the
  \<^verbatim>\<open>catch\<close> of the action sets exit code 1.
\<close>

theorem buildParameters_parse_failure_aborts:
  "(sel_path selection = Some p \<and> p \<noteq> [] \<and> env_readFile env p = Some content \<and> content \<noteq> []
      \<and> env_yamlParse env content = Inl (YamlParseError msg)
    \<longrightarrow> buildParameters env selection prompt paramEntries args = Inl (YamlParseError msg)
        \<and> exitCode (YamlParseError msg) = 1)
   \<and> (sel_path selection = Some p \<and> env_readFile env p = None
    \<longrightarrow> buildParameters env selection prompt paramEntries args
        = buildParameters env (selection\<lparr>sel_path := None\<rparr>) prompt paramEntries args)"
  using buildParameters_local_parse [of selection p env content "YamlParseError msg"]
    buildParameters_unreadable [of selection p env]
  by (simp add: exitCode_def)

theorem buildParameters_parse_failure_aborts_witness:
  "sel_path buildSelection = Some ''ci/build.yml'' \<and> ''ci/build.yml'' \<noteq> []
   \<and> env_readFile brokenYamlEnv ''ci/build.yml'' = Some ''parameters: [''
   \<and> env_yamlParse brokenYamlEnv ''parameters: [''
       = Inl (YamlParseError ''Flow sequence must end with a ]'')
   \<and> buildParameters brokenYamlEnv buildSelection False [] []
       = Inl (YamlParseError ''Flow sequence must end with a ]'')
   \<and> exitCode (YamlParseError ''Flow sequence must end with a ]'') = 1
   \<and> buildParameters brokenYamlEnv (buildSelection\<lparr>sel_path := None\<rparr>) False [] []
       = Inr (Map.empty, [])"
proof -
  have h: "sel_path buildSelection = Some ''ci/build.yml'' \<and> ''ci/build.yml'' \<noteq> []
   \<and> env_readFile brokenYamlEnv ''ci/build.yml'' = Some ''parameters: [''
   \<and> ''parameters: ['' \<noteq> []
   \<and> env_yamlParse brokenYamlEnv ''parameters: [''
       = Inl (YamlParseError ''Flow sequence must end with a ]'')"
    by (simp add: buildSelection_def brokenYamlEnv_def)
  have remote: "buildParameters brokenYamlEnv (buildSelection\<lparr>sel_path := None\<rparr>) False [] []
       = Inr (Map.empty, [])"
    by (simp add: buildParameters_def lookupYaml_def brokenYamlEnv_def buildSelection_def
        locateYaml_def yamlParameters_def extractParamsFromYaml_def getProp_def truthy_def
        List.map_filter_def specParameters_def mergedParams_def parseParams_def
        parseUnknownParamFlags_def)
  show ?thesis
    using h remote
      buildParameters_parse_failure_aborts [of buildSelection "''ci/build.yml''" brokenYamlEnv "''parameters: [''"
        "''Flow sequence must end with a ]''" False "[]" "[]"]
    by simp
qed


end
